theory Spec2Isabelle
  imports Main "HOL-Library.List_Lexorder" "HOL-Library.Char_ord" "HOL-Library.Multiset"
begin

section \<open>Data model (src/types.ts, interfaces of src/services/syncService.ts)\<close>

text \<open>
  The column \<open>sync_status\<close> of a task holds one of the three literals
  \<open>'pending' | 'synced' | 'error'\<close>.
\<close>

datatype sync_status = Pending | Synced | Error

text \<open>
  A row of table \<open>tasks\<close> (interface \<open>Task\<close>). The field \<open>id\<close> is called \<open>t_id\<close>
  here, \<open>created_at\<close> and \<open>updated_at\<close> carry the prefix \<open>t_\<close>, because field names are
  global and the queue rows have columns of the same names. Timestamps are ISO-8601 strings, as
  \<open>new Date().toISOString()\<close> gives them.
\<close>

record task =
  t_id :: string
  title :: string
  description :: string
  completed :: bool
  t_created_at :: string
  t_updated_at :: string
  is_deleted :: bool
  sync_status :: sync_status
  server_id :: "string option"
  last_synced_at :: "string option"

text \<open>
  Modelled from the spec: the schema of table \<open>sync_queue\<close> (src/db/database.ts is not
  among the sources). A row has the columns of the interface \<open>SyncQueueItem\<close> (\<open>id\<close> is
  \<open>q_id\<close> here) and the update time that \<open>mark_failed\<close> stamps, the column
  \<open>updated_at\<close> that the statement of \<open>handleSyncError\<close> writes; it is \<open>NULL\<close> until
  then.
\<close>

record sync_queue_item =
  q_id :: string
  task_id :: string
  operation :: string
  data :: string
  created_at :: string
  retry_count :: int
  error_message :: "string option"
  updated_at :: "string option"

text \<open>
  The fields of a \<open>Partial<Task>\<close> that \<open>createTask\<close> and \<open>updateTask\<close> read; \<open>None\<close> is
  \<open>undefined\<close>.
\<close>

record partial_task =
  title_opt :: "string option"
  description_opt :: "string option"
  completed_opt :: "bool option"

text \<open>
  JSON values, for the payload of an intent. A number is kept as its literal text: no code
  modelled here computes with one. An object lists each of its keys once, as a parsed
  object has them.
\<close>

datatype json =
  JNull
| JBool bool
| JNum string
| JStr string
| JArr "json list"
| JObj "(string \<times> json) list"

section \<open>The environment: runtime, clock, remote server, storage faults\<close>

datatype http_method = POST | PUT | DELETE

record request =
  http_method :: http_method
  url :: string
  body :: "json option"

text \<open>
  Everything the services take from outside is a field of the environment. The world counts
  the database statements and HTTP requests made so far in \<open>tick\<close>; the environment answers
  by tick, so two calls at different moments may be answered differently.
  \<^item> \<open>uuidv4\<close>, \<open>toISOString\<close>: the identifier and the time stamp drawn at a tick;
  \<^item> \<open>db_fault\<close>: \<open>Some msg\<close> when the database statement issued at that tick throws
    \<open>Error(msg)\<close> (storage unavailable), \<open>None\<close> when it executes;
  \<^item> \<open>axios_fault\<close>: \<open>Some msg\<close> when the HTTP request issued at that tick fails, \<open>msg\<close>
    being \<open>error.response?.data?.message || error.message\<close>; \<open>None\<close> when it succeeds;
  \<^item> \<open>JSON_stringify\<close>, \<open>JSON_parse\<close>: the built-ins of the runtime; \<open>JSON_parse\<close>
    gives \<open>None\<close> where the built-in throws a \<open>SyntaxError\<close>.
\<close>

record env =
  apiUrl :: string
  uuidv4 :: "nat \<Rightarrow> string"
  toISOString :: "nat \<Rightarrow> string"
  db_fault :: "nat \<Rightarrow> string option"
  axios_fault :: "nat \<Rightarrow> request \<Rightarrow> string option"
  JSON_stringify :: "json \<Rightarrow> string"
  JSON_parse :: "string \<Rightarrow> json option"

text \<open>
  The world: the two tables (rows in insertion order), the tick, the lines written by
  \<open>console.log\<close> and the HTTP requests sent, both oldest first.
\<close>

record world =
  tasks :: "task list"
  sync_queue :: "sync_queue_item list"
  tick :: nat
  stdout :: "string list"
  requests :: "request list"

definition now :: "env \<Rightarrow> world \<Rightarrow> string" where
  "now e w = toISOString e (tick w)"

definition console_log :: "string \<Rightarrow> world \<Rightarrow> world" where
  "console_log line w = w\<lparr>stdout := stdout w @ [line]\<rparr>"

text \<open>
  Modelled from the spec: the class \<open>Database\<close> (src/db/database.ts is not among the
  sources), a durable store that executes a statement or is unavailable. One call
  (\<open>db.run\<close>, \<open>db.all\<close>, \<open>db.get\<close>) takes a tick, and either throws (\<open>Inl\<close> the message,
  tables untouched) or executes the statement.
\<close>

definition db_exec :: "env \<Rightarrow> world \<Rightarrow> (world \<Rightarrow> 'a \<times> world) \<Rightarrow> (string + 'a) \<times> world" where
  "db_exec e w stmt =
     (let w1 = w\<lparr>tick := Suc (tick w)\<rparr>
      in case db_fault e (tick w) of
           Some msg \<Rightarrow> (Inl msg, w1)
         | None \<Rightarrow> (case stmt w1 of (r, w2) \<Rightarrow> (Inr r, w2)))"

text \<open>One HTTP request through axios: it takes a tick and is recorded.\<close>

definition axios_request :: "env \<Rightarrow> world \<Rightarrow> request \<Rightarrow> string option \<times> world" where
  "axios_request e w req =
     (axios_fault e (tick w) req, w\<lparr>tick := Suc (tick w), requests := requests w @ [req]\<rparr>)"

text \<open>\<open>s.includes(sub)\<close> of JavaScript (\<open>includes\<close> is a keyword of Isabelle, hence
  the suffix): \<open>sub\<close> occurs in \<open>s\<close> as a contiguous run.\<close>

fun starts_with :: "string \<Rightarrow> string \<Rightarrow> bool" where
  "starts_with s [] = True"
| "starts_with [] (c # cs) = False"
| "starts_with (x # xs) (c # cs) = (x = c \<and> starts_with xs cs)"

fun includes_str :: "string \<Rightarrow> string \<Rightarrow> bool" where
  "includes_str [] sub = (sub = [])"
| "includes_str (x # xs) sub = (starts_with (x # xs) sub \<or> includes_str xs sub)"

text \<open>\<open>x || d\<close> of JavaScript on an optional string and on an optional boolean.\<close>

definition or_string :: "string option \<Rightarrow> string \<Rightarrow> string" where
  "or_string x d = (case x of None \<Rightarrow> d | Some v \<Rightarrow> if v = [] then d else v)"

definition or_bool :: "bool option \<Rightarrow> bool \<Rightarrow> bool" where
  "or_bool x d = (case x of None \<Rightarrow> d | Some v \<Rightarrow> if v then v else d)"

text \<open>\<open>v.name\<close> of JavaScript on a parsed JSON value other than \<open>null\<close>: only an object has
  own properties of such names.\<close>

fun get_prop :: "json \<Rightarrow> string \<Rightarrow> json option" where
  "get_prop (JObj kvs) name = map_of kvs name"
| "get_prop _ name = None"

text \<open>The object literal of \<open>createTask\<close> and \<open>getTask\<close>, as the JSON value it serialises to.\<close>

definition status_text :: "sync_status \<Rightarrow> string" where
  "status_text s = (case s of Pending \<Rightarrow> ''pending'' | Synced \<Rightarrow> ''synced'' | Error \<Rightarrow> ''error'')"

definition json_opt_string :: "string option \<Rightarrow> json" where
  "json_opt_string x = (case x of None \<Rightarrow> JNull | Some s \<Rightarrow> JStr s)"

definition task_json :: "task \<Rightarrow> json" where
  "task_json t = JObj
     [(''id'', JStr (t_id t)),
      (''title'', JStr (title t)),
      (''description'', JStr (description t)),
      (''completed'', JBool (completed t)),
      (''created_at'', JStr (t_created_at t)),
      (''updated_at'', JStr (t_updated_at t)),
      (''is_deleted'', JBool (is_deleted t)),
      (''sync_status'', JStr (status_text (sync_status t))),
      (''server_id'', json_opt_string (server_id t)),
      (''last_synced_at'', json_opt_string (last_synced_at t))]"

section \<open>SQL statements of the services, as functions on the tables\<close>

text \<open>
  Each statement returns what the driver returns: the number of rows changed for an
  \<open>INSERT\<close>, \<open>UPDATE\<close> or \<open>DELETE\<close>, the rows for a \<open>SELECT\<close>.
\<close>

definition count_where :: "('a \<Rightarrow> bool) \<Rightarrow> 'a list \<Rightarrow> nat" where
  "count_where P xs = length (filter P xs)"

definition update_where :: "('a \<Rightarrow> bool) \<Rightarrow> ('a \<Rightarrow> 'a) \<Rightarrow> 'a list \<Rightarrow> 'a list" where
  "update_where P f xs = map (\<lambda>x. if P x then f x else x) xs"

text \<open>\<open>INSERT INTO sync_queue (...) VALUES (...)\<close>.\<close>

definition insert_sync_queue :: "sync_queue_item \<Rightarrow> world \<Rightarrow> nat \<times> world" where
  "insert_sync_queue item w = (1, w\<lparr>sync_queue := sync_queue w @ [item]\<rparr>)"

text \<open>\<open>INSERT INTO tasks (...) VALUES (...)\<close>.\<close>

definition insert_task :: "task \<Rightarrow> world \<Rightarrow> nat \<times> world" where
  "insert_task t w = (1, w\<lparr>tasks := tasks w @ [t]\<rparr>)"

text \<open>\<open>SELECT * FROM sync_queue WHERE retry_count < ? ORDER BY created_at ASC\<close>. Strings
  compare byte by byte; rows with equal keys are kept in table order.\<close>

definition select_pending :: "int \<Rightarrow> world \<Rightarrow> sync_queue_item list \<times> world" where
  "select_pending m w = (sort_key created_at (filter (\<lambda>q. retry_count q < m) (sync_queue w)), w)"

text \<open>\<open>UPDATE tasks SET sync_status = ?, last_synced_at = ? WHERE id = ?\<close>.\<close>

definition update_task_synced :: "sync_status \<Rightarrow> string \<Rightarrow> string \<Rightarrow> world \<Rightarrow> nat \<times> world" where
  "update_task_synced st ts i w =
     (count_where (\<lambda>t. t_id t = i) (tasks w),
      w\<lparr>tasks := update_where (\<lambda>t. t_id t = i)
                    (\<lambda>t. t\<lparr>sync_status := st, last_synced_at := Some ts\<rparr>) (tasks w)\<rparr>)"

text \<open>\<open>DELETE FROM sync_queue WHERE id = ?\<close>.\<close>

definition delete_sync_queue :: "string \<Rightarrow> world \<Rightarrow> nat \<times> world" where
  "delete_sync_queue i w =
     (count_where (\<lambda>q. q_id q = i) (sync_queue w),
      w\<lparr>sync_queue := filter (\<lambda>q. q_id q \<noteq> i) (sync_queue w)\<rparr>)"

text \<open>\<open>UPDATE sync_queue SET retry_count = ?, error_message = ?, updated_at = ? WHERE id = ?\<close>.\<close>

definition update_sync_queue_retry ::
    "int \<Rightarrow> string \<Rightarrow> string \<Rightarrow> string \<Rightarrow> world \<Rightarrow> nat \<times> world" where
  "update_sync_queue_retry rc msg ts i w =
     (count_where (\<lambda>q. q_id q = i) (sync_queue w),
      w\<lparr>sync_queue := update_where (\<lambda>q. q_id q = i)
          (\<lambda>q. q\<lparr>retry_count := rc, error_message := Some msg, updated_at := Some ts\<rparr>)
          (sync_queue w)\<rparr>)"

text \<open>\<open>UPDATE tasks SET sync_status = ? WHERE id = ?\<close>.\<close>

definition update_task_status :: "sync_status \<Rightarrow> string \<Rightarrow> world \<Rightarrow> nat \<times> world" where
  "update_task_status st i w =
     (count_where (\<lambda>t. t_id t = i) (tasks w),
      w\<lparr>tasks := update_where (\<lambda>t. t_id t = i) (\<lambda>t. t\<lparr>sync_status := st\<rparr>) (tasks w)\<rparr>)"



text \<open>\<open>UPDATE sync_queue SET retry_count = 0, error_message = NULL WHERE\<close> condition.\<close>

definition reset_where :: "(sync_queue_item \<Rightarrow> bool) \<Rightarrow> world \<Rightarrow> nat \<times> world" where
  "reset_where cond w =
     (count_where cond (sync_queue w),
      w\<lparr>sync_queue := update_where cond
          (\<lambda>q. q\<lparr>retry_count := 0, error_message := None\<rparr>) (sync_queue w)\<rparr>)"

text \<open>\<open>SELECT * FROM tasks WHERE id = ? AND is_deleted = 0\<close>, through \<open>db.get\<close>: the first
  such row.\<close>

definition select_task :: "string \<Rightarrow> world \<Rightarrow> task option \<times> world" where
  "select_task i w = (find (\<lambda>t. t_id t = i \<and> \<not> is_deleted t) (tasks w), w)"

text \<open>\<open>UPDATE tasks SET title = ?, description = ?, completed = ?, updated_at = ?,
  sync_status = ? WHERE id = ?\<close>.\<close>

definition update_task_fields ::
    "string \<Rightarrow> string \<Rightarrow> bool \<Rightarrow> string \<Rightarrow> sync_status \<Rightarrow> string \<Rightarrow> world \<Rightarrow> nat \<times> world" where
  "update_task_fields ti de co ts st i w =
     (count_where (\<lambda>t. t_id t = i) (tasks w),
      w\<lparr>tasks := update_where (\<lambda>t. t_id t = i)
          (\<lambda>t. t\<lparr>title := ti, description := de, completed := co,
                 t_updated_at := ts, sync_status := st\<rparr>) (tasks w)\<rparr>)"

text \<open>\<open>UPDATE tasks SET is_deleted = ?, updated_at = ?, sync_status = ? WHERE id = ?\<close>.\<close>

definition update_task_deleted ::
    "bool \<Rightarrow> string \<Rightarrow> sync_status \<Rightarrow> string \<Rightarrow> world \<Rightarrow> nat \<times> world" where
  "update_task_deleted del ts st i w =
     (count_where (\<lambda>t. t_id t = i) (tasks w),
      w\<lparr>tasks := update_where (\<lambda>t. t_id t = i)
          (\<lambda>t. t\<lparr>is_deleted := del, t_updated_at := ts, sync_status := st\<rparr>) (tasks w)\<rparr>)"

section \<open>SyncService (src/services/syncService.ts)\<close>

definition maxRetries :: int where
  "maxRetries = 3"

text \<open>
  \<open>addToSyncQueue(taskId, operation, data)\<close>: \<open>Inl\<close> is the message of the exception that
  \<open>db.run\<close> throws.
\<close>

definition addToSyncQueue ::
    "env \<Rightarrow> world \<Rightarrow> string \<Rightarrow> string \<Rightarrow> json \<Rightarrow> (string + unit) \<times> world" where
  "addToSyncQueue e w taskId op d =
     (let syncId = uuidv4 e (tick w);
          ts = now e w;
          serializedData = JSON_stringify e d
      in case db_exec e w (insert_sync_queue
                \<lparr>q_id = syncId, task_id = taskId, operation = op, data = serializedData,
                 created_at = ts, retry_count = 0, error_message = None, updated_at = None\<rparr>) of
           (Inl msg, w1) \<Rightarrow> (Inl msg, w1)
         | (Inr _, w1) \<Rightarrow> (Inr (), w1))"

text \<open>
  \<open>makeApiCall(operation, data, taskId)\<close>: \<open>Some msg\<close> is the message of the error thrown,
  \<open>None\<close> a normal return. An axios error is wrapped as \<open>API Error: ...\<close>; the error of the
  default branch is not an axios error and is thrown on as it is.
\<close>

definition api_error :: "string option \<times> world \<Rightarrow> string option \<times> world" where
  "api_error r = (case r of (None, w) \<Rightarrow> (None, w) | (Some msg, w) \<Rightarrow> (Some (''API Error: '' @ msg), w))"

definition makeApiCall ::
    "env \<Rightarrow> world \<Rightarrow> string \<Rightarrow> json \<Rightarrow> string \<Rightarrow> string option \<times> world" where
  "makeApiCall e w op d taskId =
     (if op = ''create'' then
        api_error (axios_request e w
          \<lparr>http_method = POST, url = apiUrl e @ ''/tasks'', body = Some d\<rparr>)
      else if op = ''update'' then
        api_error (axios_request e w
          \<lparr>http_method = PUT, url = apiUrl e @ ''/tasks/'' @ taskId, body = Some d\<rparr>)
      else if op = ''delete'' then
        api_error (axios_request e w
          \<lparr>http_method = DELETE, url = apiUrl e @ ''/tasks/'' @ taskId, body = None\<rparr>)
      else (Some (''Unknown operation: '' @ op), w))"

text \<open>
  \<open>item.data ? JSON.parse(item.data) : {}\<close> inside its \<open>try\<close>: \<open>None\<close> when \<open>JSON.parse\<close>
  throws.
\<close>

definition parse_data :: "env \<Rightarrow> string \<Rightarrow> json option" where
  "parse_data e s = (if s = [] then Some (JObj []) else JSON_parse e s)"

text \<open>The message of the \<open>TypeError\<close> that reading \<open>.title\<close> of \<open>null\<close> throws (V8's wording).\<close>

definition null_title_error :: string where
  "null_title_error =
     ''Cannot read properties of null (reading '' @ [CHR 0x27] @ ''title'' @ [CHR 0x27] @ '')''"

text \<open>
  \<open>processSyncItem(item)\<close>: \<open>Some msg\<close> is the message of the error thrown, \<open>None\<close> a normal
  return. \<open>processing_line\<close> is the line it logs first. The conditions are tested in the
  order of the source; \<open>||\<close> evaluates
  \<open>taskData.title\<close> only when the task id does not contain \<open>fail\<close>. The last \<open>try\<close> only
  logs to \<open>console.error\<close> and throws the error on.
\<close>

definition processing_line :: "sync_queue_item \<Rightarrow> string" where
  "processing_line item = ''Processing sync item: '' @ operation item @ '' task '' @ task_id item"

definition processSyncItem :: "env \<Rightarrow> world \<Rightarrow> sync_queue_item \<Rightarrow> string option \<times> world" where
  "processSyncItem e w item =
     (let w0 = console_log (processing_line item) w
      in if operation item = ''fail'' then (Some ''Forced failure for testing'', w0)
         else case parse_data e (data item) of
           None \<Rightarrow> (Some ''Malformed data in sync queue'', w0)
         | Some taskData \<Rightarrow>
             if includes_str (task_id item) ''fail'' then (Some ''Test sync failure'', w0)
             else if taskData = JNull then (Some null_title_error, w0)
             else if get_prop taskData ''title'' = Some (JStr ''TEST_FAILURE'')
                     \<or> get_prop taskData ''description'' = Some (JStr ''TEST_FAILURE'')
               then (Some ''Test sync failure'', w0)
             else (case makeApiCall e w0 (operation item) taskData (task_id item) of
                     (Some msg, w1) \<Rightarrow> (Some msg, w1)
                   | (None, w1) \<Rightarrow>
                       (case db_exec e w1 (update_task_synced Synced (now e w1) (task_id item)) of
                          (Inl msg, w2) \<Rightarrow> (Some msg, w2)
                        | (Inr _, w2) \<Rightarrow>
                            (case db_exec e w2 (delete_sync_queue (q_id item)) of
                               (Inl msg, w3) \<Rightarrow> (Some msg, w3)
                             | (Inr _, w3) \<Rightarrow> (None, w3)))))"

text \<open>\<open>handleSyncError(item, error)\<close>: \<open>Some msg\<close> when one of its statements throws.\<close>

definition handleSyncError ::
    "env \<Rightarrow> world \<Rightarrow> sync_queue_item \<Rightarrow> string \<Rightarrow> string option \<times> world" where
  "handleSyncError e w item err =
     (let newRetryCount = retry_count item + 1
      in case db_exec e w (update_sync_queue_retry newRetryCount err (now e w) (q_id item)) of
           (Inl msg, w1) \<Rightarrow> (Some msg, w1)
         | (Inr _, w1) \<Rightarrow>
             if newRetryCount \<ge> maxRetries then
               (case db_exec e w1 (update_task_status Error (task_id item)) of
                  (Inl msg, w2) \<Rightarrow> (Some msg, w2)
                | (Inr _, w2) \<Rightarrow> (None, w2))
             else (None, w1))"

text \<open>
  The entry of \<open>details\<close> for one intent: \<open>{status: 'success', taskId}\<close> or
  \<open>{status: 'error', taskId, error}\<close>.
\<close>

datatype detail = DSuccess string | DError string string

text \<open>The locals \<open>successCount\<close>, \<open>errorCount\<close> and \<open>details\<close> of \<open>sync\<close>.\<close>

record pass =
  successCount :: nat
  errorCount :: nat
  item_details :: "string \<rightharpoonup> detail"

text \<open>
  The \<open>for\<close> loop of \<open>sync\<close> over the snapshot. \<open>Some msg\<close> in the result is an error thrown
  out of the loop: only \<open>handleSyncError\<close>, called in the \<open>catch\<close> of the body, can throw
  one, after \<open>errorCount++\<close>.
\<close>

fun sync_loop ::
    "env \<Rightarrow> sync_queue_item list \<Rightarrow> pass \<Rightarrow> world \<Rightarrow> (string option \<times> pass) \<times> world" where
  "sync_loop e [] p w = ((None, p), w)"
| "sync_loop e (item # items) p w =
     (case processSyncItem e w item of
        (None, w1) \<Rightarrow>
          sync_loop e items
            (p\<lparr>successCount := successCount p + 1,
               item_details := (item_details p)(q_id item \<mapsto> DSuccess (task_id item))\<rparr>) w1
      | (Some err, w1) \<Rightarrow>
          (let p1 = p\<lparr>errorCount := errorCount p + 1\<rparr>
           in case handleSyncError e w1 item err of
                (Some msg, w2) \<Rightarrow> ((Some msg, p1), w2)
              | (None, w2) \<Rightarrow>
                  sync_loop e items
                    (p1\<lparr>item_details := (item_details p1)(q_id item \<mapsto> DError (task_id item) err)\<rparr>)
                    w2))"

text \<open>
  The value of \<open>details\<close> in the result of \<open>sync\<close>: \<open>{message}\<close>, the object keyed by intent
  id, or \<open>{error}\<close>.
\<close>

datatype sync_details =
  Message string
| PerItem "string \<rightharpoonup> detail"
| ErrorDetails string

record sync_result =
  success :: bool
  synced_items :: nat
  failed_items :: nat
  details :: sync_details

definition sync :: "env \<Rightarrow> world \<Rightarrow> sync_result \<times> world" where
  "sync e w =
     (case db_exec e w (select_pending maxRetries) of
        (Inl msg, w1) \<Rightarrow>
          (\<lparr>success = False, synced_items = 0, failed_items = 0, details = ErrorDetails msg\<rparr>, w1)
      | (Inr items, w1) \<Rightarrow>
          if length items = 0 then
            (\<lparr>success = True, synced_items = 0, failed_items = 0,
              details = Message ''No items to sync''\<rparr>, w1)
          else (case sync_loop e items
                       \<lparr>successCount = 0, errorCount = 0, item_details = Map.empty\<rparr> w1 of
                  ((None, p), w2) \<Rightarrow>
                    (\<lparr>success = (errorCount p = 0), synced_items = successCount p,
                      failed_items = errorCount p, details = PerItem (item_details p)\<rparr>, w2)
                | ((Some msg, p), w2) \<Rightarrow>
                    (\<lparr>success = False, synced_items = successCount p,
                      failed_items = errorCount p, details = ErrorDetails msg\<rparr>, w2)))"




text \<open>The interface \<open>RetryResult\<close>; both fields are JavaScript numbers.\<close>

record retry_result =
  retried :: int
  failed :: int

text \<open>\<open>retryAllFailed()\<close>; \<open>changes\<close> is the number of rows the statement updated.\<close>

definition retryAllFailed :: "env \<Rightarrow> world \<Rightarrow> retry_result \<times> world" where
  "retryAllFailed e w =
     (case db_exec e w (reset_where (\<lambda>q. retry_count q \<ge> maxRetries)) of
        (Inl msg, w1) \<Rightarrow> (\<lparr>retried = 0, failed = 0\<rparr>, w1)
      | (Inr changes, w1) \<Rightarrow> (\<lparr>retried = int changes, failed = 0\<rparr>, w1))"

text \<open>\<open>retryFailed(ids)\<close>: the condition \<open>id IN (?, ..., ?) AND retry_count >= ?\<close>.\<close>

definition retryFailed :: "env \<Rightarrow> world \<Rightarrow> string list \<Rightarrow> retry_result \<times> world" where
  "retryFailed e w ids =
     (if length ids = 0 then (\<lparr>retried = 0, failed = 0\<rparr>, w)
      else case db_exec e w (reset_where (\<lambda>q. q_id q \<in> set ids \<and> retry_count q \<ge> maxRetries)) of
        (Inl msg, w1) \<Rightarrow> (\<lparr>retried = 0, failed = int (length ids)\<rparr>, w1)
      | (Inr changes, w1) \<Rightarrow>
          (\<lparr>retried = int changes, failed = int (length ids) - int changes\<rparr>, w1))"

section \<open>TaskService (src/services/taskService.ts)\<close>

text \<open>\<open>getTask(id)\<close>; \<open>Inl\<close> is the message of the exception that \<open>db.get\<close> throws.\<close>

definition getTask :: "env \<Rightarrow> world \<Rightarrow> string \<Rightarrow> (string + task option) \<times> world" where
  "getTask e w i = db_exec e w (select_task i)"

text \<open>\<open>createTask(taskData)\<close>: the task returned, or the message of the exception.\<close>

definition createTask :: "env \<Rightarrow> world \<Rightarrow> partial_task \<Rightarrow> (string + task) \<times> world" where
  "createTask e w taskData =
     (let taskId = uuidv4 e (tick w);
          ts = now e w;
          t = \<lparr>t_id = taskId,
               title = or_string (title_opt taskData) [],
               description = or_string (description_opt taskData) [],
               completed = or_bool (completed_opt taskData) False,
               t_created_at = ts, t_updated_at = ts, is_deleted = False,
               sync_status = Pending, server_id = None, last_synced_at = None\<rparr>
      in case db_exec e w (insert_task t) of
           (Inl msg, w1) \<Rightarrow> (Inl msg, w1)
         | (Inr _, w1) \<Rightarrow>
             (case addToSyncQueue e w1 (t_id t) ''create'' (task_json t) of
                (Inl msg, w2) \<Rightarrow> (Inl msg, w2)
              | (Inr _, w2) \<Rightarrow> (Inr t, w2)))"

text \<open>\<open>updateTask(id, updates)\<close>: \<open>Inr None\<close> is the result \<open>null\<close>.\<close>

definition updateTask ::
    "env \<Rightarrow> world \<Rightarrow> string \<Rightarrow> partial_task \<Rightarrow> (string + task option) \<times> world" where
  "updateTask e w i updates =
     (case getTask e w i of
        (Inl msg, w1) \<Rightarrow> (Inl msg, w1)
      | (Inr None, w1) \<Rightarrow> (Inr None, w1)
      | (Inr (Some existingTask), w1) \<Rightarrow>
          (let ts = now e w1
           in case db_exec e w1 (update_task_fields
                     (case title_opt updates of Some v \<Rightarrow> v | None \<Rightarrow> title existingTask)
                     (case description_opt updates of Some v \<Rightarrow> v | None \<Rightarrow> description existingTask)
                     (case completed_opt updates of Some v \<Rightarrow> v | None \<Rightarrow> completed existingTask)
                     ts Pending i) of
                (Inl msg, w2) \<Rightarrow> (Inl msg, w2)
              | (Inr _, w2) \<Rightarrow>
                  (case getTask e w2 i of
                     (Inl msg, w3) \<Rightarrow> (Inl msg, w3)
                   | (Inr None, w3) \<Rightarrow> (Inr None, w3)
                   | (Inr (Some updatedTask), w3) \<Rightarrow>
                       (case addToSyncQueue e w3 i ''update'' (task_json updatedTask) of
                          (Inl msg, w4) \<Rightarrow> (Inl msg, w4)
                        | (Inr _, w4) \<Rightarrow> (Inr (Some updatedTask), w4)))))"

text \<open>\<open>deleteTask(id)\<close>.\<close>

definition deleteTask :: "env \<Rightarrow> world \<Rightarrow> string \<Rightarrow> (string + bool) \<times> world" where
  "deleteTask e w i =
     (case getTask e w i of
        (Inl msg, w1) \<Rightarrow> (Inl msg, w1)
      | (Inr None, w1) \<Rightarrow> (Inr False, w1)
      | (Inr (Some existingTask), w1) \<Rightarrow>
          (let ts = now e w1
           in case db_exec e w1 (update_task_deleted True ts Pending i) of
                (Inl msg, w2) \<Rightarrow> (Inl msg, w2)
              | (Inr _, w2) \<Rightarrow>
                  (case addToSyncQueue e w2 i ''delete'' (task_json existingTask) of
                     (Inl msg, w3) \<Rightarrow> (Inl msg, w3)
                   | (Inr _, w3) \<Rightarrow> (Inr True, w3))))"

section \<open>The route \<open>POST /\<close> of src/routes/tasks.ts\<close>



section \<open>Vocabulary of the statements below\<close>

text \<open>An intent whose entry in \<open>details\<close> is \<open>{status: 'success', taskId}\<close>.\<close>

definition succeeded :: "(string \<rightharpoonup> detail) \<Rightarrow> sync_queue_item \<Rightarrow> bool" where
  "succeeded d item = (d (q_id item) = Some (DSuccess (task_id item)))"

text \<open>A supplied id names an exhausted intent of the queue.\<close>

definition is_exhausted_id :: "world \<Rightarrow> string \<Rightarrow> bool" where
  "is_exhausted_id w i = (\<exists>q\<in>set (sync_queue w). q_id q = i \<and> maxRetries \<le> retry_count q)"

text \<open>
  The tally of \<open>retry_selected(ids)\<close> in the words of the specification: \<open>retried\<close> the
  number of supplied ids that were exhausted, \<open>failed\<close> the number of supplied ids that were
  not.
\<close>

definition spec_tally :: "world \<Rightarrow> string list \<Rightarrow> retry_result" where
  "spec_tally w ids =
     \<lparr>retried = int (length (filter (is_exhausted_id w) ids)),
      failed = int (length (filter (\<lambda>i. \<not> is_exhausted_id w i) ids))\<rparr>"

section \<open>A concrete environment and concrete worlds, for the examples\<close>

text \<open>
  The text \<open>JSON.stringify\<close> gives for a value whose strings hold no control character and
  no character beyond ASCII: no white space, members in the order of the object.
\<close>

definition json_quote :: "string \<Rightarrow> string" where
  "json_quote s =
     [CHR 0x22]
     @ concat (map (\<lambda>c. if c = CHR 0x22 \<or> c = CHR 0x5C then [CHR 0x5C, c] else [c]) s)
     @ [CHR 0x22]"

fun commas :: "string list \<Rightarrow> string" where
  "commas [] = []"
| "commas [x] = x"
| "commas (x # y # ys) = x @ '','' @ commas (y # ys)"

fun stringify :: "json \<Rightarrow> string" where
  "stringify JNull = ''null''"
| "stringify (JBool b) = (if b then ''true'' else ''false'')"
| "stringify (JNum lit) = lit"
| "stringify (JStr s) = json_quote s"
| "stringify (JArr xs) = ''['' @ commas (map stringify xs) @ '']''"
| "stringify (JObj kvs) =
     ''{'' @ commas (map (\<lambda>(k, v). json_quote k @ '':'' @ stringify v) kvs) @ ''}''"

text \<open>Three decimal digits, for the milliseconds of a time stamp.\<close>

definition digit :: "nat \<Rightarrow> char" where
  "digit n = ''0123456789'' ! (n mod 10)"

definition millis :: "nat \<Rightarrow> string" where
  "millis n = [digit (n div 100), digit (n div 10), digit n]"

definition demo_task1 :: task where
  "demo_task1 =
     \<lparr>t_id = ''t1'', title = ''Buy milk'', description = [], completed = False,
      t_created_at = ''2025-01-01T00:00:00.000Z'', t_updated_at = ''2025-01-01T00:00:00.000Z'',
      is_deleted = False, sync_status = Pending, server_id = None, last_synced_at = None\<rparr>"

definition demo_task2 :: task where
  "demo_task2 =
     \<lparr>t_id = ''t2'', title = ''Pay rent'', description = ''monthly'', completed = False,
      t_created_at = ''2025-01-01T00:00:00.000Z'', t_updated_at = ''2025-01-01T00:00:00.000Z'',
      is_deleted = False, sync_status = Pending, server_id = None, last_synced_at = None\<rparr>"

text \<open>
  \<open>JSON.parse\<close> on the payloads of the examples; every other text of the examples is not
  JSON.
\<close>

definition demo_parse :: "string \<Rightarrow> json option" where
  "demo_parse s =
     (if s = stringify (JObj [(''title'', JStr ''Buy milk'')])
        then Some (JObj [(''title'', JStr ''Buy milk'')])
      else if s = stringify (JObj [(''completed'', JBool True)])
        then Some (JObj [(''completed'', JBool True)])
      else if s = stringify (JObj [(''title'', JStr ''TEST_FAILURE'')])
        then Some (JObj [(''title'', JStr ''TEST_FAILURE'')])
      else None)"

text \<open>
  An environment whose database executes every statement and whose server fails every request
  about task \<open>t2\<close>.
\<close>

definition demo_env :: env where
  "demo_env =
     \<lparr>apiUrl = ''http://localhost:3000/api'',
      uuidv4 = (\<lambda>n. ''00000000-0000-4000-8000-000000000'' @ millis n),
      toISOString = (\<lambda>n. ''2025-01-01T00:01:00.'' @ millis n @ ''Z''),
      db_fault = (\<lambda>n. None),
      axios_fault = (\<lambda>n req. if url req = ''http://localhost:3000/api/tasks/t2''
                               then Some ''Network Error'' else None),
      JSON_stringify = stringify,
      JSON_parse = demo_parse\<rparr>"

text \<open>The same environment with the database file gone: every statement throws.\<close>

definition down_env :: env where
  "down_env = demo_env\<lparr>db_fault := (\<lambda>n. Some ''SQLITE_CANTOPEN: unable to open database file'')\<rparr>"

text \<open>Intents: one that will succeed, one on its last try, one exhausted, one forced to fail.\<close>

definition q_fresh :: sync_queue_item where
  "q_fresh =
     \<lparr>q_id = ''q1'', task_id = ''t1'', operation = ''update'',
      data = stringify (JObj [(''title'', JStr ''Buy milk'')]), created_at = ''2025-01-01T00:00:30.000Z'',
      retry_count = 0, error_message = None, updated_at = None\<rparr>"

definition q_last_try :: sync_queue_item where
  "q_last_try =
     \<lparr>q_id = ''q2'', task_id = ''t2'', operation = ''update'',
      data = stringify (JObj [(''completed'', JBool True)]), created_at = ''2025-01-01T00:00:20.000Z'',
      retry_count = 2, error_message = Some ''API Error: Network Error'',
      updated_at = Some ''2025-01-01T00:00:25.000Z''\<rparr>"

definition q_exhausted :: sync_queue_item where
  "q_exhausted =
     \<lparr>q_id = ''q3'', task_id = ''t2'', operation = ''create'',
      data = stringify (JObj [(''title'', JStr ''Pay rent'')]), created_at = ''2025-01-01T00:00:10.000Z'',
      retry_count = 3, error_message = Some ''API Error: Network Error'',
      updated_at = Some ''2025-01-01T00:00:15.000Z''\<rparr>"

definition q_forced :: sync_queue_item where
  "q_forced =
     \<lparr>q_id = ''q4'', task_id = ''t1'', operation = ''fail'',
      data = stringify (JObj [(''title'', JStr ''Buy milk'')]), created_at = ''2025-01-01T00:00:40.000Z'',
      retry_count = 0, error_message = None, updated_at = None\<rparr>"

definition demo_world :: world where
  "demo_world =
     \<lparr>tasks = [demo_task1, demo_task2], sync_queue = [q_fresh, q_last_try],
      tick = 0, stdout = [], requests = []\<rparr>"

definition one_task_world :: world where
  "one_task_world =
     \<lparr>tasks = [demo_task1], sync_queue = [], tick = 0, stdout = [], requests = []\<rparr>"

definition idle_world :: world where
  "idle_world =
     \<lparr>tasks = [demo_task1, demo_task2], sync_queue = [q_exhausted],
      tick = 0, stdout = [], requests = []\<rparr>"

section \<open>Lemmas on the statements and on one turn of the loop\<close>

lemma filter_update_where:
  "(\<And>x. P x \<Longrightarrow> \<not> Q x) \<Longrightarrow> (\<And>x. P x \<Longrightarrow> \<not> Q (f x)) \<Longrightarrow>
   filter Q (update_where P f xs) = filter Q xs"
  by (induction xs) (auto simp: update_where_def)

lemma filter_weaken:
  assumes "filter P xs = filter P ys" and "\<And>x. Q x \<Longrightarrow> P x"
  shows "filter Q xs = filter Q ys"
proof -
  have "filter Q (filter P xs) = filter Q (filter P ys)" using assms(1) by simp
  moreover have "\<And>zs. filter Q (filter P zs) = filter Q zs"
    using assms(2) by (auto intro: filter_cong)
  ultimately show ?thesis by simp
qed

lemma process_frame:
  assumes "processSyncItem e w item = (r, w')"
  shows "filter (\<lambda>t. t_id t \<noteq> task_id item) (tasks w') = filter (\<lambda>t. t_id t \<noteq> task_id item) (tasks w)"
    and "filter (\<lambda>q. q_id q \<noteq> q_id item) (sync_queue w') = filter (\<lambda>q. q_id q \<noteq> q_id item) (sync_queue w)"
    and "stdout w' = stdout w @ [processing_line item]"
  using assms
  by (auto simp: processSyncItem_def console_log_def makeApiCall_def api_error_def axios_request_def
      db_exec_def update_task_synced_def delete_sync_queue_def Let_def
      filter_update_where
      split: if_splits option.splits prod.splits sum.splits)

lemma process_ok:
  assumes "processSyncItem e w item = (None, w')"
  shows "\<exists>ts. tasks w' = update_where (\<lambda>t. t_id t = task_id item)
                  (\<lambda>t. t\<lparr>sync_status := Synced, last_synced_at := Some ts\<rparr>) (tasks w)"
    and "sync_queue w' = filter (\<lambda>q. q_id q \<noteq> q_id item) (sync_queue w)"
    and "\<exists>req. requests w' = requests w @ [req]"
  using assms
  by (auto simp: processSyncItem_def console_log_def makeApiCall_def api_error_def axios_request_def
      db_exec_def update_task_synced_def delete_sync_queue_def Let_def
      split: if_splits option.splits prod.splits sum.splits)

lemma process_err_queue:
  assumes "processSyncItem e w item = (Some err, w')"
  shows "sync_queue w' = sync_queue w"
  using assms
  by (auto simp: processSyncItem_def console_log_def makeApiCall_def api_error_def axios_request_def
      db_exec_def update_task_synced_def delete_sync_queue_def Let_def
      split: if_splits option.splits prod.splits sum.splits)

lemma process_err_tasks:
  assumes "processSyncItem e w item = (Some err, w')" and "\<forall>n. db_fault e n = None"
  shows "tasks w' = tasks w"
  using assms
  by (auto simp: processSyncItem_def console_log_def makeApiCall_def api_error_def axios_request_def
      db_exec_def update_task_synced_def delete_sync_queue_def Let_def
      split: if_splits option.splits prod.splits sum.splits)

lemma handle_frame:
  assumes "handleSyncError e w item err = (r, w')"
  shows "filter (\<lambda>t. t_id t \<noteq> task_id item) (tasks w') = filter (\<lambda>t. t_id t \<noteq> task_id item) (tasks w)"
    and "filter (\<lambda>q. q_id q \<noteq> q_id item) (sync_queue w') = filter (\<lambda>q. q_id q \<noteq> q_id item) (sync_queue w)"
    and "stdout w' = stdout w"
    and "requests w' = requests w"
  using assms
  by (auto simp: handleSyncError_def db_exec_def update_sync_queue_retry_def update_task_status_def
      Let_def filter_update_where
      split: if_splits option.splits prod.splits sum.splits)

lemma handle_ok:
  assumes "handleSyncError e w item err = (None, w')"
  shows "sync_queue w' = update_where (\<lambda>q. q_id q = q_id item)
            (\<lambda>q. q\<lparr>retry_count := retry_count item + 1, error_message := Some err,
                   updated_at := Some (now e w)\<rparr>) (sync_queue w)"
    and "tasks w' = (if maxRetries \<le> retry_count item + 1
                     then update_where (\<lambda>t. t_id t = task_id item) (\<lambda>t. t\<lparr>sync_status := Error\<rparr>) (tasks w)
                     else tasks w)"
  using assms
  by (auto simp: handleSyncError_def db_exec_def update_sync_queue_retry_def update_task_status_def
      Let_def
      split: if_splits option.splits prod.splits sum.splits)

lemma handle_nofault:
  assumes "\<forall>n. db_fault e n = None"
  shows "\<exists>w'. handleSyncError e w item err = (None, w')"
  using assms
  by (auto simp: handleSyncError_def db_exec_def update_sync_queue_retry_def update_task_status_def
      Let_def
      split: if_splits option.splits prod.splits sum.splits)


lemma sync_loop_Cons:
  "sync_loop e (item # items) p w =
     (case sync_loop e [item] p w of
        ((None, p1), w1) \<Rightarrow> sync_loop e items p1 w1
      | ((Some msg, p1), w1) \<Rightarrow> ((Some msg, p1), w1))"
  by (simp add: Let_def split: prod.splits option.splits)

lemma sync_loop_append:
  "sync_loop e (xs @ ys) p w =
     (case sync_loop e xs p w of
        ((None, p1), w1) \<Rightarrow> sync_loop e ys p1 w1
      | ((Some msg, p1), w1) \<Rightarrow> ((Some msg, p1), w1))"
proof (induction xs arbitrary: p w)
  case Nil
  show ?case by simp
next
  case (Cons x xs)
  show ?case
    by (simp only: append_Cons sync_loop_Cons [of e x "xs @ ys"] sync_loop_Cons [of e x xs] Cons.IH)
       (simp split: prod.splits option.splits)
qed

text \<open>What one turn of the loop does, by the three ways it can end.\<close>

lemma step_cases:
  assumes "sync_loop e [item] p w = ((ab, p'), w')"
  obtains
    (success) "processSyncItem e w item = (None, w')" "ab = None"
      "p' = p\<lparr>successCount := successCount p + 1,
              item_details := (item_details p)(q_id item \<mapsto> DSuccess (task_id item))\<rparr>"
  | (failure) err w1 where "processSyncItem e w item = (Some err, w1)"
      "handleSyncError e w1 item err = (None, w')" "ab = None"
      "p' = p\<lparr>errorCount := errorCount p + 1,
              item_details := (item_details p)(q_id item \<mapsto> DError (task_id item) err)\<rparr>"
  | (abort) err w1 msg where "processSyncItem e w item = (Some err, w1)"
      "handleSyncError e w1 item err = (Some msg, w')" "ab = Some msg"
      "p' = p\<lparr>errorCount := errorCount p + 1\<rparr>"
  using assms by (auto simp: Let_def split: prod.splits option.splits)

lemma step_frame:
  assumes "sync_loop e [item] p w = ((ab, p'), w')"
  shows "filter (\<lambda>t. t_id t \<noteq> task_id item) (tasks w') = filter (\<lambda>t. t_id t \<noteq> task_id item) (tasks w)"
    and "filter (\<lambda>q. q_id q \<noteq> q_id item) (sync_queue w') = filter (\<lambda>q. q_id q \<noteq> q_id item) (sync_queue w)"
    and "i \<noteq> q_id item \<Longrightarrow> item_details p' i = item_details p i"
    and "stdout w' = stdout w @ [processing_line item]"
    and "successCount p' + errorCount p' = Suc (successCount p + errorCount p)"
    and "successCount p \<le> successCount p'"
    and "ab \<noteq> None \<Longrightarrow> errorCount p < errorCount p'"
  using assms
  by (cases rule: step_cases;
      simp add: process_frame handle_frame)+


declare sync_loop.simps(2) [simp del]

lemma loop_Cons_cases:
  assumes "sync_loop e (item # items) p w = ((ab, p'), w')"
  obtains (stop) msg where "sync_loop e [item] p w = ((Some msg, p'), w')" "ab = Some msg"
  | (continue) p1 w1 where "sync_loop e [item] p w = ((None, p1), w1)"
      "sync_loop e items p1 w1 = ((ab, p'), w')"
  using assms
  by (subst (asm) sync_loop_Cons) (auto split: prod.splits option.splits)

lemma loop_frame:
  "sync_loop e items p w = ((ab, p'), w') \<Longrightarrow>
     filter (\<lambda>t. t_id t \<notin> task_id ` set items) (tasks w')
       = filter (\<lambda>t. t_id t \<notin> task_id ` set items) (tasks w)
   \<and> filter (\<lambda>q. q_id q \<notin> q_id ` set items) (sync_queue w')
       = filter (\<lambda>q. q_id q \<notin> q_id ` set items) (sync_queue w)
   \<and> (\<forall>i. i \<notin> q_id ` set items \<longrightarrow> item_details p' i = item_details p i)"
proof (induction items arbitrary: p w)
  case Nil
  then show ?case by simp
next
  case (Cons item items)
  let ?T = "\<lambda>t. t_id t \<notin> task_id ` set (item # items)"
  let ?Q = "\<lambda>q. q_id q \<notin> q_id ` set (item # items)"
  from Cons.prems show ?case
  proof (cases rule: loop_Cons_cases)
    case (stop msg)
    have "filter ?T (tasks w') = filter ?T (tasks w)"
      by (rule filter_weaken [OF step_frame(1) [OF stop(1)]]) simp
    moreover have "filter ?Q (sync_queue w') = filter ?Q (sync_queue w)"
      by (rule filter_weaken [OF step_frame(2) [OF stop(1)]]) simp
    moreover have "\<forall>i. i \<notin> q_id ` set (item # items) \<longrightarrow> item_details p' i = item_details p i"
      using step_frame(3) [OF stop(1)] by simp
    ultimately show ?thesis by simp
  next
    case (continue p1 w1)
    note IH = Cons.IH [OF continue(2)]
    have t1: "filter ?T (tasks w1) = filter ?T (tasks w)"
      by (rule filter_weaken [OF step_frame(1) [OF continue(1)]]) simp
    have q1: "filter ?Q (sync_queue w1) = filter ?Q (sync_queue w)"
      by (rule filter_weaken [OF step_frame(2) [OF continue(1)]]) simp
    have d1: "\<forall>i. i \<notin> q_id ` set (item # items) \<longrightarrow> item_details p1 i = item_details p i"
      using step_frame(3) [OF continue(1)] by simp
    have t2: "filter ?T (tasks w') = filter ?T (tasks w1)"
      by (rule filter_weaken [of "\<lambda>t. t_id t \<notin> task_id ` set items"]) (use IH in simp_all)
    have q2: "filter ?Q (sync_queue w') = filter ?Q (sync_queue w1)"
      by (rule filter_weaken [of "\<lambda>q. q_id q \<notin> q_id ` set items"]) (use IH in simp_all)
    have d2: "\<forall>i. i \<notin> q_id ` set (item # items) \<longrightarrow> item_details p' i = item_details p1 i"
      using IH by simp
    from t1 t2 q1 q2 d1 d2 show ?thesis by simp
  qed
qed

lemma loop_progress:
  "sync_loop e items p w = ((ab, p'), w') \<Longrightarrow>
     (\<exists>k\<le>length items.
        successCount p' + errorCount p' = successCount p + errorCount p + k
      \<and> stdout w' = stdout w @ map processing_line (take k items)
      \<and> (ab = None \<longrightarrow> k = length items))
   \<and> (ab \<noteq> None \<longrightarrow> 0 < errorCount p')"
proof (induction items arbitrary: p w)
  case Nil
  then show ?case by simp
next
  case (Cons item items)
  from Cons.prems show ?case
  proof (cases rule: loop_Cons_cases)
    case (stop msg)
    note sf = step_frame(4,5,7) [OF stop(1)]
    have "Suc 0 \<le> length (item # items)" by simp
    moreover have "successCount p' + errorCount p' = successCount p + errorCount p + Suc 0"
      using sf by simp
    moreover have "stdout w' = stdout w @ map processing_line (take (Suc 0) (item # items))"
      using sf by simp
    moreover have "0 < errorCount p'" using sf by simp
    ultimately show ?thesis using stop(2) by blast
  next
    case (continue p1 w1)
    note sf = step_frame(4,5) [OF continue(1)]
    from Cons.IH [OF continue(2)] obtain k where k: "k \<le> length items"
      "successCount p' + errorCount p' = successCount p1 + errorCount p1 + k"
      "stdout w' = stdout w1 @ map processing_line (take k items)"
      "ab = None \<longrightarrow> k = length items" and ab: "ab \<noteq> None \<longrightarrow> 0 < errorCount p'"
      by blast
    have "Suc k \<le> length (item # items)" using k by simp
    moreover have "successCount p' + errorCount p' = successCount p + errorCount p + Suc k"
      using sf k by simp
    moreover have "stdout w' = stdout w @ map processing_line (take (Suc k) (item # items))"
      using sf k by simp
    moreover have "ab = None \<longrightarrow> Suc k = length (item # items)" using k by simp
    ultimately show ?thesis using ab by blast
  qed
qed

lemma step_nofault:
  assumes "\<forall>n. db_fault e n = None" and "sync_loop e [item] p w = ((ab, p'), w')"
  shows "ab = None"
  using assms(2)
proof (cases rule: step_cases)
  case (abort err w1 msg)
  with handle_nofault [OF assms(1), of w1 item err] show ?thesis by simp
qed

lemma loop_nofault:
  assumes "\<forall>n. db_fault e n = None"
  shows "sync_loop e items p w = ((ab, p'), w') \<Longrightarrow> ab = None"
proof (induction items arbitrary: p w)
  case Nil
  then show ?case by simp
next
  case (Cons item items)
  from Cons.prems show ?case
  proof (cases rule: loop_Cons_cases)
    case (stop msg)
    with step_nofault [OF assms stop(1)] show ?thesis by simp
  next
    case (continue p1 w1)
    then show ?thesis using Cons.IH by blast
  qed
qed

lemma loop_dom:
  "sync_loop e items p w = ((None, p'), w') \<Longrightarrow>
     dom (item_details p') = dom (item_details p) \<union> q_id ` set items"
proof (induction items arbitrary: p w)
  case Nil
  then show ?case by simp
next
  case (Cons item items)
  from Cons.prems show ?case
  proof (cases rule: loop_Cons_cases)
    case (stop msg)
    then show ?thesis by simp
  next
    case (continue p1 w1)
    have "dom (item_details p1) = insert (q_id item) (dom (item_details p))"
      using continue(1) by (cases rule: step_cases) auto
    with Cons.IH [OF continue(2)] show ?thesis by auto
  qed
qed

lemma loop_counts:
  "sync_loop e items p w = ((None, p'), w') \<Longrightarrow> distinct (map q_id items) \<Longrightarrow>
     successCount p' = successCount p + length (filter (succeeded (item_details p')) items)
   \<and> errorCount p' = errorCount p + length (filter (\<lambda>i. \<not> succeeded (item_details p') i) items)"
proof (induction items arbitrary: p w)
  case Nil
  then show ?case by simp
next
  case (Cons item items)
  have dist: "distinct (map q_id items)" and fresh: "q_id item \<notin> q_id ` set items"
    using Cons.prems(2) by auto
  from Cons.prems(1) show ?case
  proof (cases rule: loop_Cons_cases)
    case (stop msg)
    then show ?thesis by simp
  next
    case (continue p1 w1)
    have keep: "item_details p' (q_id item) = item_details p1 (q_id item)"
      using loop_frame [OF continue(2)] fresh by blast
    note IH = Cons.IH [OF continue(2) dist]
    from continue(1) show ?thesis
    proof (cases rule: step_cases)
      case success
      then have "succeeded (item_details p') item" using keep by (simp add: succeeded_def)
      with IH success show ?thesis by simp
    next
      case (failure err w0)
      then have "\<not> succeeded (item_details p') item" using keep by (simp add: succeeded_def)
      with IH failure show ?thesis by simp
    next
      case (abort err w0 msg)
      then show ?thesis by simp
    qed
  qed
qed

lemma select_pending_tick [simp]:
  "select_pending m (w\<lparr>tick := n\<rparr>) = (fst (select_pending m w), w\<lparr>tick := n\<rparr>)"
  by (simp add: select_pending_def)

lemma in_update_where:
  "x \<in> set xs \<Longrightarrow> P x \<Longrightarrow> f x \<in> set (update_where P f xs)"
  by (auto simp: update_where_def)

lemma filter_transfer:
  assumes "filter Q xs = filter Q ys" and "x \<in> set xs" and "Q x"
  shows "x \<in> set ys"
proof -
  have "x \<in> set (filter Q xs)" using assms(2,3) by simp
  then have "x \<in> set (filter Q ys)" using assms(1) by simp
  then show ?thesis by simp
qed

lemma loop_at_item:
  assumes "sync_loop e (xs @ item # ys) p w = ((None, p'), w')"
  obtains p1 w1 p2 w2 where "sync_loop e xs p w = ((None, p1), w1)"
    and "sync_loop e [item] p1 w1 = ((None, p2), w2)"
    and "sync_loop e ys p2 w2 = ((None, p'), w')"
proof -
  obtain a1 p1 w1 where xs: "sync_loop e xs p w = ((a1, p1), w1)"
    by (metis prod.exhaust)
  have a1: "a1 = None"
    using assms xs by (cases a1) (simp_all add: sync_loop_append)
  with assms xs have rest: "sync_loop e (item # ys) p1 w1 = ((None, p'), w')"
    by (simp add: sync_loop_append)
  from rest show ?thesis
  proof (cases rule: loop_Cons_cases)
    case (stop msg)
    then show ?thesis by simp
  next
    case (continue p2 w2)
    with xs a1 that show ?thesis by blast
  qed
qed

lemma step_success_effect:
  assumes "processSyncItem e w item = (None, w')"
  shows "\<forall>q\<in>set (sync_queue w'). q_id q \<noteq> q_id item"
    and "\<forall>t\<in>set (tasks w'). t_id t = task_id item \<longrightarrow> sync_status t = Synced \<and> last_synced_at t \<noteq> None"
  using process_ok(1,2) [OF assms] by (auto simp: update_where_def)

lemma step_failure_effect:
  assumes "processSyncItem e w item = (Some err, w1)" and "handleSyncError e w1 item err = (None, w')"
    and "item \<in> set (sync_queue w)"
  shows "item\<lparr>retry_count := retry_count item + 1, error_message := Some err,
               updated_at := Some (now e w1)\<rparr> \<in> set (sync_queue w')"
    and "maxRetries \<le> retry_count item + 1 \<Longrightarrow>
         \<forall>t\<in>set (tasks w'). t_id t = task_id item \<longrightarrow> sync_status t = Error"
proof -
  have "item \<in> set (sync_queue w1)" using process_err_queue [OF assms(1)] assms(3) by simp
  then show "item\<lparr>retry_count := retry_count item + 1, error_message := Some err,
               updated_at := Some (now e w1)\<rparr> \<in> set (sync_queue w')"
    unfolding handle_ok(1) [OF assms(2)] by (rule in_update_where) simp
next
  assume "maxRetries \<le> retry_count item + 1"
  then show "\<forall>t\<in>set (tasks w'). t_id t = task_id item \<longrightarrow> sync_status t = Error"
    unfolding handle_ok(2) [OF assms(2)] by (auto simp: update_where_def)
qed

lemma pass_item_outcome:
  assumes loop: "sync_loop e (xs @ item # ys) p w = ((None, p'), w')"
    and after: "q_id item \<notin> q_id ` set ys" and before: "q_id item \<notin> q_id ` set xs"
    and row: "item \<in> set (sync_queue w)"
  shows "(item_details p' (q_id item) = Some (DSuccess (task_id item))
          \<and> (\<forall>q\<in>set (sync_queue w'). q_id q \<noteq> q_id item)
          \<and> (task_id item \<notin> task_id ` set ys \<longrightarrow>
               (\<forall>t\<in>set (tasks w'). t_id t = task_id item \<longrightarrow>
                  sync_status t = Synced \<and> last_synced_at t \<noteq> None)))
       \<or> (\<exists>err ts. item_details p' (q_id item) = Some (DError (task_id item) err)
          \<and> item\<lparr>retry_count := retry_count item + 1, error_message := Some err,
                  updated_at := Some ts\<rparr> \<in> set (sync_queue w')
          \<and> (maxRetries \<le> retry_count item + 1 \<and> task_id item \<notin> task_id ` set ys \<longrightarrow>
               (\<forall>t\<in>set (tasks w'). t_id t = task_id item \<longrightarrow> sync_status t = Error)))"
proof -
  from loop obtain p1 w1 p2 w2 where xs: "sync_loop e xs p w = ((None, p1), w1)"
    and step: "sync_loop e [item] p1 w1 = ((None, p2), w2)"
    and ys: "sync_loop e ys p2 w2 = ((None, p'), w')"
    by (rule loop_at_item)
  note fx = loop_frame [OF xs] and fy = loop_frame [OF ys]
  have row1: "item \<in> set (sync_queue w1)"
    by (rule filter_transfer [of "\<lambda>q. q_id q \<notin> q_id ` set xs" "sync_queue w"])
       (use fx row before in simp_all)
  have det: "item_details p' (q_id item) = item_details p2 (q_id item)"
    using fy after by blast
  have queue_back: "\<And>q. q \<in> set (sync_queue w') \<Longrightarrow> q_id q = q_id item \<Longrightarrow> q \<in> set (sync_queue w2)"
    by (rule filter_transfer [of "\<lambda>q. q_id q \<notin> q_id ` set ys" "sync_queue w'"])
       (use fy after in simp_all)
  have queue_on: "\<And>q. q \<in> set (sync_queue w2) \<Longrightarrow> q_id q = q_id item \<Longrightarrow> q \<in> set (sync_queue w')"
    by (rule filter_transfer [of "\<lambda>q. q_id q \<notin> q_id ` set ys" "sync_queue w2"])
       (use fy after in simp_all)
  have tasks_back: "\<And>t. task_id item \<notin> task_id ` set ys \<Longrightarrow> t \<in> set (tasks w') \<Longrightarrow>
      t_id t = task_id item \<Longrightarrow> t \<in> set (tasks w2)"
    by (rule filter_transfer [of "\<lambda>t. t_id t \<notin> task_id ` set ys" "tasks w'"])
       (use fy in simp_all)
  from step show ?thesis
  proof (cases rule: step_cases)
    case success
    note eff = step_success_effect [OF success(1)]
    have "item_details p' (q_id item) = Some (DSuccess (task_id item))"
      using det success(3) by simp
    moreover have "\<forall>q\<in>set (sync_queue w'). q_id q \<noteq> q_id item"
      using eff(1) queue_back by blast
    moreover have "task_id item \<notin> task_id ` set ys \<longrightarrow>
       (\<forall>t\<in>set (tasks w'). t_id t = task_id item \<longrightarrow> sync_status t = Synced \<and> last_synced_at t \<noteq> None)"
      using eff(2) tasks_back by blast
    ultimately show ?thesis by blast
  next
    case (failure err w0)
    note eff = step_failure_effect [OF failure(1,2) row1]
    let ?row = "item\<lparr>retry_count := retry_count item + 1, error_message := Some err,
               updated_at := Some (now e w0)\<rparr>"
    have "item_details p' (q_id item) = Some (DError (task_id item) err)"
      using det failure(4) by simp
    moreover have "?row \<in> set (sync_queue w')"
      by (rule queue_on [OF eff(1)]) simp
    moreover have "maxRetries \<le> retry_count item + 1 \<and> task_id item \<notin> task_id ` set ys \<longrightarrow>
       (\<forall>t\<in>set (tasks w'). t_id t = task_id item \<longrightarrow> sync_status t = Error)"
      using eff(2) tasks_back by blast
    ultimately show ?thesis by blast
  next
    case (abort err w0 msg)
    then show ?thesis by simp
  qed
qed

text \<open>The three ways a pass whose snapshot was fetched can end.\<close>

lemma sync_cases:
  assumes "db_fault e (tick w) = None" and "sync e w = (r, w')"
  obtains (idle) "fst (select_pending maxRetries w) = []"
      "r = \<lparr>success = True, synced_items = 0, failed_items = 0, details = Message ''No items to sync''\<rparr>"
      "w' = w\<lparr>tick := Suc (tick w)\<rparr>"
  | (complete) p where "fst (select_pending maxRetries w) \<noteq> []"
      "sync_loop e (fst (select_pending maxRetries w))
         \<lparr>successCount = 0, errorCount = 0, item_details = Map.empty\<rparr> (w\<lparr>tick := Suc (tick w)\<rparr>)
       = ((None, p), w')"
      "r = \<lparr>success = (errorCount p = 0), synced_items = successCount p,
            failed_items = errorCount p, details = PerItem (item_details p)\<rparr>"
  | (aborted) msg p where "fst (select_pending maxRetries w) \<noteq> []"
      "sync_loop e (fst (select_pending maxRetries w))
         \<lparr>successCount = 0, errorCount = 0, item_details = Map.empty\<rparr> (w\<lparr>tick := Suc (tick w)\<rparr>)
       = ((Some msg, p), w')"
      "r = \<lparr>success = False, synced_items = successCount p,
            failed_items = errorCount p, details = ErrorDetails msg\<rparr>"
  using assms
  by (auto simp: sync_def db_exec_def split: if_splits prod.splits option.splits)


lemma snapshot_set:
  "set (fst (select_pending m w)) = {q \<in> set (sync_queue w). retry_count q < m}"
  by (auto simp: select_pending_def)

lemma snapshot_distinct:
  "distinct (map q_id (sync_queue w)) \<Longrightarrow> distinct (map q_id (fst (select_pending m w)))"
  by (auto simp: select_pending_def distinct_map intro: inj_on_subset)

lemma snapshot_split:
  assumes "distinct (map q_id (sync_queue w))"
    and "fst (select_pending m w) = xs @ item # ys"
  shows "q_id item \<notin> q_id ` set xs" and "q_id item \<notin> q_id ` set ys"
    and "item \<in> set (sync_queue w)" and "retry_count item < m"
proof -
  have d: "distinct (map q_id (xs @ item # ys))"
    using snapshot_distinct [OF assms(1), of m] assms(2) by simp
  show "q_id item \<notin> q_id ` set xs" using d by auto
  show "q_id item \<notin> q_id ` set ys" using d by auto
  have "item \<in> set (fst (select_pending m w))" using assms(2) by simp
  then show "item \<in> set (sync_queue w)" and "retry_count item < m"
    by (simp_all add: snapshot_set)
qed

lemma failure_turn:
  assumes "\<forall>n. db_fault e n = None" and "processSyncItem e w1 item = (Some err, w2)"
  shows "\<exists>w3. handleSyncError e w2 item err = (None, w3)
      \<and> sync_queue w3 = update_where (\<lambda>q. q_id q = q_id item)
            (\<lambda>q. q\<lparr>retry_count := retry_count item + 1, error_message := Some err,
                   updated_at := Some (now e w2)\<rparr>) (sync_queue w1)
      \<and> tasks w3 = (if 3 \<le> retry_count item + 1
                     then update_where (\<lambda>t. t_id t = task_id item) (\<lambda>t. t\<lparr>sync_status := Error\<rparr>) (tasks w1)
                     else tasks w1)
      \<and> sync_loop e (item # rest) p w1 =
          sync_loop e rest
            (p\<lparr>errorCount := errorCount p + 1,
               item_details := (item_details p)(q_id item \<mapsto> DError (task_id item) err)\<rparr>) w3"
proof -
  obtain w3 where h: "handleSyncError e w2 item err = (None, w3)"
    using handle_nofault [OF assms(1)] by blast
  have "sync_loop e (item # rest) p w1 =
          sync_loop e rest
            (p\<lparr>errorCount := errorCount p + 1,
               item_details := (item_details p)(q_id item \<mapsto> DError (task_id item) err)\<rparr>) w3"
    using assms(2) h by (simp add: sync_loop.simps(2))
  then show ?thesis
    using h handle_ok [OF h] process_err_queue [OF assms(2)] process_err_tasks [OF assms(2,1)]
    by (simp add: maxRetries_def)
qed

lemma success_turn:
  assumes "processSyncItem e w1 item = (None, w2)"
  shows "tasks w2 = update_where (\<lambda>t. t_id t = task_id item)
           (\<lambda>t. t\<lparr>sync_status := Synced, last_synced_at := Some (toISOString e (Suc (tick w1)))\<rparr>)
           (tasks w1)
       \<and> sync_queue w2 = filter (\<lambda>q. q_id q \<noteq> q_id item) (sync_queue w1)
       \<and> sync_loop e (item # rest) p w1 =
           sync_loop e rest
             (p\<lparr>successCount := successCount p + 1,
                item_details := (item_details p)(q_id item \<mapsto> DSuccess (task_id item))\<rparr>) w2"
proof -
  have "tasks w2 = update_where (\<lambda>t. t_id t = task_id item)
           (\<lambda>t. t\<lparr>sync_status := Synced, last_synced_at := Some (toISOString e (Suc (tick w1)))\<rparr>)
           (tasks w1)"
    using assms
    by (auto simp: processSyncItem_def console_log_def makeApiCall_def api_error_def axios_request_def
        db_exec_def update_task_synced_def delete_sync_queue_def Let_def now_def
        split: if_splits option.splits prod.splits sum.splits)
  then show ?thesis
    using assms process_ok(2) [OF assms] by (simp add: sync_loop.simps(2))
qed

section \<open>Lemmas on the queue administration and on the task service\<close>

lemma count_exhausted_rows:
  assumes "distinct (map q_id xs)"
  shows "length (filter (\<lambda>q. q_id q \<in> set ids \<and> P q) xs)
       = length (filter (\<lambda>i. \<exists>q\<in>set xs. q_id q = i \<and> P q) (remdups ids))"
proof -
  let ?rows = "filter (\<lambda>q. q_id q \<in> set ids \<and> P q) xs"
  let ?ids = "filter (\<lambda>i. \<exists>q\<in>set xs. q_id q = i \<and> P q) (remdups ids)"
  have d: "distinct (map q_id ?rows)" using assms by (rule distinct_map_filter)
  have same: "set (map q_id ?rows) = set ?ids" by auto
  have "length ?rows = length (map q_id ?rows)" by simp
  also have "\<dots> = card (set (map q_id ?rows))" using d by (simp only: distinct_card)
  also have "\<dots> = card (set ?ids)" by (simp only: same)
  also have "\<dots> = length ?ids" by (rule distinct_card) simp
  finally show ?thesis .
qed




lemma find_update_where:
  assumes "\<And>x. P (f x) = P x" and "\<And>x. P x \<Longrightarrow> Q x"
  shows "find P (update_where Q f xs) = map_option f (find P xs)"
  using assms by (induction xs) (auto simp: update_where_def)

lemmas task_service_defs = createTask_def updateTask_def deleteTask_def getTask_def
  addToSyncQueue_def db_exec_def select_task_def insert_task_def insert_sync_queue_def
  update_task_fields_def update_task_deleted_def now_def Let_def

section \<open>The examples, evaluated\<close>

lemmas demo_defs = demo_env_def down_env_def demo_world_def idle_world_def q_fresh_def q_last_try_def
  q_exhausted_def q_forced_def demo_task1_def demo_task2_def demo_parse_def millis_def digit_def
  json_quote_def

lemmas run_defs = sync_def db_exec_def select_pending_def maxRetries_def
     processSyncItem_def processing_line_def console_log_def parse_data_def makeApiCall_def api_error_def
     axios_request_def handleSyncError_def update_sync_queue_retry_def update_task_status_def
     update_task_synced_def delete_sync_queue_def count_where_def update_where_def now_def
     sync_loop.simps(2)

lemma demo_pass:
  "sync demo_env demo_world =
     (\<lparr>success = False, synced_items = 1, failed_items = 1,
       details = PerItem [''q2'' \<mapsto> DError ''t2'' ''API Error: Network Error'',
                          ''q1'' \<mapsto> DSuccess ''t1'']\<rparr>,
      \<lparr>tasks = [demo_task1\<lparr>sync_status := Synced, last_synced_at := Some ''2025-01-01T00:01:00.005Z''\<rparr>,
                demo_task2\<lparr>sync_status := Error\<rparr>],
       sync_queue = [q_last_try\<lparr>retry_count := 3, error_message := Some ''API Error: Network Error'',
                                 updated_at := Some ''2025-01-01T00:01:00.002Z''\<rparr>],
       tick = 7,
       stdout = [''Processing sync item: update task t2'', ''Processing sync item: update task t1''],
       requests = [\<lparr>http_method = PUT, url = ''http://localhost:3000/api/tasks/t2'',
                     body = Some (JObj [(''completed'', JBool True)])\<rparr>,
                   \<lparr>http_method = PUT, url = ''http://localhost:3000/api/tasks/t1'',
                     body = Some (JObj [(''title'', JStr ''Buy milk'')])\<rparr>]\<rparr>)"
  by (simp add: demo_defs run_defs)


lemma demo_snapshot: "fst (select_pending maxRetries demo_world) = [q_last_try, q_fresh]"
  by (simp add: select_pending_def maxRetries_def demo_world_def q_fresh_def q_last_try_def)

lemmas example_task_defs = demo_env_def one_task_world_def demo_task1_def millis_def digit_def
  task_json_def json_quote_def status_text_def json_opt_string_def

section \<open>The claims\<close>

text \<open>
  C1. While the database executes its statements, the intent ids of the queue being
  unique: for an intent of the pass snapshot whose processing fails (the remote call, the
  deserialisation or a forced failure: every error \<open>processSyncItem\<close> throws), the
  engine sets the intent's \<open>retry_count\<close> to its value
  plus one and stores the error's message on it; when the new \<open>retry_count\<close> is at least
  \<open>MAX_RETRIES = 3\<close> it also sets the \<open>sync_status\<close> of the owning record to \<open>error\<close>; the
  intent stays in the queue; and the loop goes on with the next intent. For a whole pass:
  every intent of the snapshot is attempted, in order, and has its entry in the details; a
  failed intent is in the final queue with its count incremented and the message stored, and
  its record ends as \<open>error\<close> when the retries are exhausted and no later intent of the pass
  is about the same record.
\<close>

theorem failed_intent_is_recorded_and_pass_goes_on:
  assumes avail: "\<forall>n. db_fault e n = None"
    and ids: "distinct (map q_id (sync_queue w))"
    and snap: "fst (select_pending maxRetries w) = xs @ item # ys"
    and pass: "sync e w = (r, w')"
  shows "(\<exists>d. details r = PerItem d
          \<and> dom d = q_id ` set (xs @ item # ys)
          \<and> synced_items r + failed_items r = length (xs @ item # ys)
          \<and> stdout w' = stdout w @ map processing_line (xs @ item # ys)
          \<and> (succeeded d item \<or> (\<exists>err. d (q_id item) = Some (DError (task_id item) err)))
          \<and> (\<forall>err. d (q_id item) = Some (DError (task_id item) err) \<longrightarrow>
                (\<exists>ts. item\<lparr>retry_count := retry_count item + 1, error_message := Some err,
                           updated_at := Some ts\<rparr> \<in> set (sync_queue w'))
              \<and> (3 \<le> retry_count item + 1 \<and> task_id item \<notin> task_id ` set ys \<longrightarrow>
                   (\<forall>t\<in>set (tasks w'). t_id t = task_id item \<longrightarrow> sync_status t = Error))))
       \<and> (\<forall>p w1 w2 err rest. processSyncItem e w1 item = (Some err, w2) \<longrightarrow>
            (\<exists>w3. handleSyncError e w2 item err = (None, w3)
               \<and> sync_queue w3 = update_where (\<lambda>q. q_id q = q_id item)
                     (\<lambda>q. q\<lparr>retry_count := retry_count item + 1, error_message := Some err,
                            updated_at := Some (now e w2)\<rparr>) (sync_queue w1)
               \<and> tasks w3 = (if 3 \<le> retry_count item + 1
                     then update_where (\<lambda>t. t_id t = task_id item)
                            (\<lambda>t. t\<lparr>sync_status := Error\<rparr>) (tasks w1)
                     else tasks w1)
               \<and> sync_loop e (item # rest) p w1 =
                   sync_loop e rest
                     (p\<lparr>errorCount := errorCount p + 1,
                        item_details := (item_details p)(q_id item \<mapsto> DError (task_id item) err)\<rparr>)
                     w3))"
proof (rule conjI)
  let ?w1 = "w\<lparr>tick := Suc (tick w)\<rparr>"
  note sp = snapshot_split [OF ids snap]
  from avail have fetch: "db_fault e (tick w) = None" by simp
  from fetch pass show "\<exists>d. details r = PerItem d
          \<and> dom d = q_id ` set (xs @ item # ys)
          \<and> synced_items r + failed_items r = length (xs @ item # ys)
          \<and> stdout w' = stdout w @ map processing_line (xs @ item # ys)
          \<and> (succeeded d item \<or> (\<exists>err. d (q_id item) = Some (DError (task_id item) err)))
          \<and> (\<forall>err. d (q_id item) = Some (DError (task_id item) err) \<longrightarrow>
                (\<exists>ts. item\<lparr>retry_count := retry_count item + 1, error_message := Some err,
                           updated_at := Some ts\<rparr> \<in> set (sync_queue w'))
              \<and> (3 \<le> retry_count item + 1 \<and> task_id item \<notin> task_id ` set ys \<longrightarrow>
                   (\<forall>t\<in>set (tasks w'). t_id t = task_id item \<longrightarrow> sync_status t = Error)))"
  proof (cases rule: sync_cases)
    case idle
    with snap show ?thesis by simp
  next
    case (aborted msg p)
    with loop_nofault [OF avail aborted(2)] show ?thesis by simp
  next
    case (complete p)
    have loop: "sync_loop e (xs @ item # ys)
         \<lparr>successCount = 0, errorCount = 0, item_details = Map.empty\<rparr> ?w1 = ((None, p), w')"
      using complete(2) snap by simp
    have row: "item \<in> set (sync_queue ?w1)" using sp(3) by simp
    note out = pass_item_outcome [OF loop sp(2) sp(1) row]
    from loop_progress [OF loop] have cnt: "successCount p + errorCount p = length (xs @ item # ys)"
      and log: "stdout w' = stdout w @ map processing_line (xs @ item # ys)"
      by auto
    have dm: "dom (item_details p) = q_id ` set (xs @ item # ys)"
      using loop_dom [OF loop] by simp
    have "details r = PerItem (item_details p)" using complete(3) by simp
    moreover have "synced_items r + failed_items r = length (xs @ item # ys)"
      using complete(3) cnt by simp
    moreover have "succeeded (item_details p) item
        \<or> (\<exists>err. item_details p (q_id item) = Some (DError (task_id item) err))"
      using out by (auto simp: succeeded_def)
    moreover have "\<forall>err. item_details p (q_id item) = Some (DError (task_id item) err) \<longrightarrow>
                (\<exists>ts. item\<lparr>retry_count := retry_count item + 1, error_message := Some err,
                           updated_at := Some ts\<rparr> \<in> set (sync_queue w'))
              \<and> (3 \<le> retry_count item + 1 \<and> task_id item \<notin> task_id ` set ys \<longrightarrow>
                   (\<forall>t\<in>set (tasks w'). t_id t = task_id item \<longrightarrow> sync_status t = Error))"
      using out by (auto simp: maxRetries_def)
    ultimately show ?thesis using dm log by blast
  qed
next
  show "\<forall>p w1 w2 err rest. processSyncItem e w1 item = (Some err, w2) \<longrightarrow>
            (\<exists>w3. handleSyncError e w2 item err = (None, w3)
               \<and> sync_queue w3 = update_where (\<lambda>q. q_id q = q_id item)
                     (\<lambda>q. q\<lparr>retry_count := retry_count item + 1, error_message := Some err,
                            updated_at := Some (now e w2)\<rparr>) (sync_queue w1)
               \<and> tasks w3 = (if 3 \<le> retry_count item + 1
                     then update_where (\<lambda>t. t_id t = task_id item)
                            (\<lambda>t. t\<lparr>sync_status := Error\<rparr>) (tasks w1)
                     else tasks w1)
               \<and> sync_loop e (item # rest) p w1 =
                   sync_loop e rest
                     (p\<lparr>errorCount := errorCount p + 1,
                        item_details := (item_details p)(q_id item \<mapsto> DError (task_id item) err)\<rparr>)
                     w3)"
    using failure_turn [OF avail] by blast
qed

theorem failed_intent_is_recorded_and_pass_goes_on_witness:
  "fst (select_pending maxRetries demo_world) = [] @ q_last_try # [q_fresh]
   \<and> retry_count q_last_try = 2
   \<and> details (fst (sync demo_env demo_world)) =
       PerItem [''q2'' \<mapsto> DError ''t2'' ''API Error: Network Error'', ''q1'' \<mapsto> DSuccess ''t1'']
   \<and> q_last_try\<lparr>retry_count := 3, error_message := Some ''API Error: Network Error'',
                 updated_at := Some ''2025-01-01T00:01:00.002Z''\<rparr>
       \<in> set (sync_queue (snd (sync demo_env demo_world)))
   \<and> map sync_status (tasks (snd (sync demo_env demo_world))) = [Synced, Error]
   \<and> synced_items (fst (sync demo_env demo_world)) + failed_items (fst (sync demo_env demo_world)) = 2"
proof -
  have h1: "\<forall>n. db_fault demo_env n = None" by (simp add: demo_env_def)
  have h2: "distinct (map q_id (sync_queue demo_world))"
    by (simp add: demo_world_def q_fresh_def q_last_try_def)
  have h3: "fst (select_pending maxRetries demo_world) = [] @ q_last_try # [q_fresh]"
    using demo_snapshot by simp
  have h4: "sync demo_env demo_world = (fst (sync demo_env demo_world), snd (sync demo_env demo_world))"
    by simp
  from failed_intent_is_recorded_and_pass_goes_on [OF h1 h2 h3 h4]
  have "synced_items (fst (sync demo_env demo_world)) + failed_items (fst (sync demo_env demo_world))
        = length ([] @ q_last_try # [q_fresh])"
    by blast
  then show ?thesis
    using h3 by (simp add: demo_pass q_last_try_def demo_task1_def demo_task2_def)
qed

text \<open>
  C2. For a pass whose snapshot was fetched, the intent ids of the queue being unique: the
  \<open>success\<close> flag of the result equals
  \<open>failed_items = 0\<close>. When the pass ran to its end, \<open>synced_items\<close> is the number of
  intents of the snapshot that succeeded, and each of them is gone from the queue; its record
  has \<open>sync_status = synced\<close> and a \<open>last_synced_at\<close> that is not null, unless a later intent
  of the same pass is about the same record. At the turn of the loop itself: a successful
  \<open>processSyncItem\<close> has set the record to \<open>synced\<close> with the time stamp read from the clock
  at the update, has deleted the intent, and the loop goes on with \<open>successCount\<close> plus one.
\<close>

theorem succeeded_intent_is_synced_and_removed:
  assumes fetch: "db_fault e (tick w) = None"
    and ids: "distinct (map q_id (sync_queue w))"
    and pass: "sync e w = (r, w')"
  shows "success r = (failed_items r = 0)
       \<and> (\<forall>d. details r = PerItem d \<longrightarrow>
            synced_items r = length (filter (succeeded d) (fst (select_pending maxRetries w)))
          \<and> (\<forall>xs item ys. fst (select_pending maxRetries w) = xs @ item # ys \<and> succeeded d item \<longrightarrow>
               (\<forall>q\<in>set (sync_queue w'). q_id q \<noteq> q_id item)
             \<and> (task_id item \<notin> task_id ` set ys \<longrightarrow>
                  (\<forall>t\<in>set (tasks w'). t_id t = task_id item \<longrightarrow>
                     sync_status t = Synced \<and> last_synced_at t \<noteq> None))))
       \<and> (\<forall>item p w1 w2 rest. processSyncItem e w1 item = (None, w2) \<longrightarrow>
            tasks w2 = update_where (\<lambda>t. t_id t = task_id item)
               (\<lambda>t. t\<lparr>sync_status := Synced, last_synced_at := Some (toISOString e (Suc (tick w1)))\<rparr>)
               (tasks w1)
          \<and> sync_queue w2 = filter (\<lambda>q. q_id q \<noteq> q_id item) (sync_queue w1)
          \<and> sync_loop e (item # rest) p w1 =
              sync_loop e rest
                (p\<lparr>successCount := successCount p + 1,
                   item_details := (item_details p)(q_id item \<mapsto> DSuccess (task_id item))\<rparr>) w2)"
proof (intro conjI)
  let ?w1 = "w\<lparr>tick := Suc (tick w)\<rparr>"
  let ?snap = "fst (select_pending maxRetries w)"
  from fetch pass show "success r = (failed_items r = 0)"
  proof (cases rule: sync_cases)
    case idle
    then show ?thesis by simp
  next
    case (complete p)
    then show ?thesis by simp
  next
    case (aborted msg p)
    with loop_progress [OF aborted(2)] show ?thesis by simp
  qed
  from fetch pass show "\<forall>d. details r = PerItem d \<longrightarrow>
            synced_items r = length (filter (succeeded d) ?snap)
          \<and> (\<forall>xs item ys. ?snap = xs @ item # ys \<and> succeeded d item \<longrightarrow>
               (\<forall>q\<in>set (sync_queue w'). q_id q \<noteq> q_id item)
             \<and> (task_id item \<notin> task_id ` set ys \<longrightarrow>
                  (\<forall>t\<in>set (tasks w'). t_id t = task_id item \<longrightarrow>
                     sync_status t = Synced \<and> last_synced_at t \<noteq> None)))"
  proof (cases rule: sync_cases)
    case idle
    then show ?thesis by simp
  next
    case (aborted msg p)
    then show ?thesis by simp
  next
    case (complete p)
    have cnt: "synced_items r = length (filter (succeeded (item_details p)) ?snap)"
      using loop_counts [OF complete(2) snapshot_distinct [OF ids]] complete(3) by simp
    have each: "(\<forall>q\<in>set (sync_queue w'). q_id q \<noteq> q_id item)
             \<and> (task_id item \<notin> task_id ` set ys \<longrightarrow>
                  (\<forall>t\<in>set (tasks w'). t_id t = task_id item \<longrightarrow>
                     sync_status t = Synced \<and> last_synced_at t \<noteq> None))"
      if snap: "?snap = xs @ item # ys" and ok: "succeeded (item_details p) item" for xs item ys
    proof -
      note sp = snapshot_split [OF ids snap]
      have loop: "sync_loop e (xs @ item # ys)
           \<lparr>successCount = 0, errorCount = 0, item_details = Map.empty\<rparr> ?w1 = ((None, p), w')"
        using complete(2) snap by simp
      have row: "item \<in> set (sync_queue ?w1)" using sp(3) by simp
      from pass_item_outcome [OF loop sp(2) sp(1) row] ok show ?thesis
        by (auto simp: succeeded_def)
    qed
    show ?thesis using cnt each complete(3) by auto
  qed
  show "\<forall>item p w1 w2 rest. processSyncItem e w1 item = (None, w2) \<longrightarrow>
            tasks w2 = update_where (\<lambda>t. t_id t = task_id item)
               (\<lambda>t. t\<lparr>sync_status := Synced, last_synced_at := Some (toISOString e (Suc (tick w1)))\<rparr>)
               (tasks w1)
          \<and> sync_queue w2 = filter (\<lambda>q. q_id q \<noteq> q_id item) (sync_queue w1)
          \<and> sync_loop e (item # rest) p w1 =
              sync_loop e rest
                (p\<lparr>successCount := successCount p + 1,
                   item_details := (item_details p)(q_id item \<mapsto> DSuccess (task_id item))\<rparr>) w2"
    using success_turn by blast
qed


theorem succeeded_intent_is_synced_and_removed_witness:
  "db_fault demo_env (tick demo_world) = None
   \<and> fst (select_pending maxRetries demo_world) = [q_last_try] @ q_fresh # []
   \<and> details (fst (sync demo_env demo_world)) =
       PerItem [''q2'' \<mapsto> DError ''t2'' ''API Error: Network Error'', ''q1'' \<mapsto> DSuccess ''t1'']
   \<and> succeeded [''q2'' \<mapsto> DError ''t2'' ''API Error: Network Error'', ''q1'' \<mapsto> DSuccess ''t1''] q_fresh
   \<and> map q_id (sync_queue (snd (sync demo_env demo_world))) = [''q2'']
   \<and> hd (tasks (snd (sync demo_env demo_world))) =
       demo_task1\<lparr>sync_status := Synced, last_synced_at := Some ''2025-01-01T00:01:00.005Z''\<rparr>
   \<and> synced_items (fst (sync demo_env demo_world)) = 1
   \<and> failed_items (fst (sync demo_env demo_world)) = 1
   \<and> success (fst (sync demo_env demo_world)) = False"
proof -
  have h1: "db_fault demo_env (tick demo_world) = None" by (simp add: demo_env_def)
  have h2: "distinct (map q_id (sync_queue demo_world))"
    by (simp add: demo_world_def q_fresh_def q_last_try_def)
  have h3: "sync demo_env demo_world = (fst (sync demo_env demo_world), snd (sync demo_env demo_world))"
    by simp
  from succeeded_intent_is_synced_and_removed [OF h1 h2 h3]
  have "success (fst (sync demo_env demo_world)) = (failed_items (fst (sync demo_env demo_world)) = 0)"
    by blast
  then show ?thesis
    using h1 demo_snapshot by (simp add: demo_pass succeeded_def q_fresh_def q_last_try_def)
qed




text \<open>
  C4, as amended. While the database executes its statements, every record mutation enqueues
  exactly one intent, appended to the queue with \<open>retry_count = 0\<close> and
  \<open>error_message = null\<close>. \<open>createTask\<close> always mutates; its payload is the serialised
  record it inserted. \<open>updateTask\<close> and \<open>deleteTask\<close> mutate when the record exists and is
  not deleted, and otherwise change nothing and enqueue nothing. The payload of an update is
  the serialised record as read back after the update. The payload of a delete is the
  serialised record as read before the soft delete, with \<open>is_deleted = false\<close>.
\<close>

theorem mutation_enqueues_one_intent:
  assumes avail: "\<forall>n. db_fault e n = None"
  shows "(\<exists>t. createTask e w d =
            (Inr t,
             w\<lparr>tick := Suc (Suc (tick w)), tasks := tasks w @ [t],
               sync_queue := sync_queue w @
                 [\<lparr>q_id = uuidv4 e (Suc (tick w)), task_id = t_id t, operation = ''create'',
                   data = JSON_stringify e (task_json t),
                   created_at = toISOString e (Suc (tick w)),
                   retry_count = 0, error_message = None, updated_at = None\<rparr>]\<rparr>))
       \<and> (find (\<lambda>t. t_id t = i \<and> \<not> is_deleted t) (tasks w) = Some old \<longrightarrow>
            (\<exists>t' w'. updateTask e w i u = (Inr (Some t'), w')
               \<and> find (\<lambda>t. t_id t = i \<and> \<not> is_deleted t) (tasks w') = Some t'
               \<and> sync_queue w' = sync_queue w @
                   [\<lparr>q_id = uuidv4 e (tick w + 3), task_id = i, operation = ''update'',
                     data = JSON_stringify e (task_json t'),
                     created_at = toISOString e (tick w + 3),
                     retry_count = 0, error_message = None, updated_at = None\<rparr>])
          \<and> (\<exists>w'. deleteTask e w i = (Inr True, w')
               \<and> tasks w' = update_where (\<lambda>t. t_id t = i)
                     (\<lambda>t. t\<lparr>is_deleted := True, t_updated_at := toISOString e (Suc (tick w)),
                            sync_status := Pending\<rparr>) (tasks w)
               \<and> \<not> is_deleted old
               \<and> sync_queue w' = sync_queue w @
                   [\<lparr>q_id = uuidv4 e (tick w + 2), task_id = i, operation = ''delete'',
                     data = JSON_stringify e (task_json old),
                     created_at = toISOString e (tick w + 2),
                     retry_count = 0, error_message = None, updated_at = None\<rparr>]))
       \<and> (find (\<lambda>t. t_id t = i \<and> \<not> is_deleted t) (tasks w) = None \<longrightarrow>
            updateTask e w i u = (Inr None, w\<lparr>tick := Suc (tick w)\<rparr>)
          \<and> deleteTask e w i = (Inr False, w\<lparr>tick := Suc (tick w)\<rparr>))"
proof (intro conjI impI)
  show "\<exists>t. createTask e w d =
            (Inr t,
             w\<lparr>tick := Suc (Suc (tick w)), tasks := tasks w @ [t],
               sync_queue := sync_queue w @
                 [\<lparr>q_id = uuidv4 e (Suc (tick w)), task_id = t_id t, operation = ''create'',
                   data = JSON_stringify e (task_json t),
                   created_at = toISOString e (Suc (tick w)),
                   retry_count = 0, error_message = None, updated_at = None\<rparr>]\<rparr>)"
    using avail by (simp add: task_service_defs)
next
  assume found: "find (\<lambda>t. t_id t = i \<and> \<not> is_deleted t) (tasks w) = Some old"
  let ?f = "\<lambda>t. t\<lparr>title := (case title_opt u of Some v \<Rightarrow> v | None \<Rightarrow> title old),
                  description := (case description_opt u of Some v \<Rightarrow> v | None \<Rightarrow> description old),
                  completed := (case completed_opt u of Some v \<Rightarrow> v | None \<Rightarrow> completed old),
                  t_updated_at := toISOString e (Suc (tick w)), sync_status := Pending\<rparr>"
  have after: "find (\<lambda>t. t_id t = i \<and> \<not> is_deleted t) (update_where (\<lambda>t. t_id t = i) ?f (tasks w))
      = Some (?f old)"
    using found by (subst find_update_where) simp_all
  show "\<exists>t' w'. updateTask e w i u = (Inr (Some t'), w')
               \<and> find (\<lambda>t. t_id t = i \<and> \<not> is_deleted t) (tasks w') = Some t'
               \<and> sync_queue w' = sync_queue w @
                   [\<lparr>q_id = uuidv4 e (tick w + 3), task_id = i, operation = ''update'',
                     data = JSON_stringify e (task_json t'),
                     created_at = toISOString e (tick w + 3),
                     retry_count = 0, error_message = None, updated_at = None\<rparr>]"
    using avail found after by (simp add: task_service_defs eval_nat_numeral)
  have "\<not> is_deleted old" using found by (auto simp: find_Some_iff)
  then show "\<exists>w'. deleteTask e w i = (Inr True, w')
               \<and> tasks w' = update_where (\<lambda>t. t_id t = i)
                     (\<lambda>t. t\<lparr>is_deleted := True, t_updated_at := toISOString e (Suc (tick w)),
                            sync_status := Pending\<rparr>) (tasks w)
               \<and> \<not> is_deleted old
               \<and> sync_queue w' = sync_queue w @
                   [\<lparr>q_id = uuidv4 e (tick w + 2), task_id = i, operation = ''delete'',
                     data = JSON_stringify e (task_json old),
                     created_at = toISOString e (tick w + 2),
                     retry_count = 0, error_message = None, updated_at = None\<rparr>]"
    using avail found by (simp add: task_service_defs)
next
  assume none: "find (\<lambda>t. t_id t = i \<and> \<not> is_deleted t) (tasks w) = None"
  show "updateTask e w i u = (Inr None, w\<lparr>tick := Suc (tick w)\<rparr>)"
    using avail none by (simp add: task_service_defs)
  show "deleteTask e w i = (Inr False, w\<lparr>tick := Suc (tick w)\<rparr>)"
    using avail none by (simp add: task_service_defs)
qed


theorem mutation_enqueues_one_intent_witness:
  "find (\<lambda>t. t_id t = ''t1'' \<and> \<not> is_deleted t) (tasks one_task_world) = Some demo_task1
   \<and> find (\<lambda>t. t_id t = ''t9'' \<and> \<not> is_deleted t) (tasks one_task_world) = None
   \<and> map operation (sync_queue (snd (createTask demo_env one_task_world
         \<lparr>title_opt = Some ''Call mum'', description_opt = None, completed_opt = None\<rparr>)))
       = [''create'']
   \<and> map operation (sync_queue (snd (updateTask demo_env one_task_world ''t1''
         \<lparr>title_opt = Some ''Buy oat milk'', description_opt = None, completed_opt = None\<rparr>)))
       = [''update'']
   \<and> map data (sync_queue (snd (updateTask demo_env one_task_world ''t1''
         \<lparr>title_opt = Some ''Buy oat milk'', description_opt = None, completed_opt = None\<rparr>)))
       = [stringify (task_json (demo_task1\<lparr>title := ''Buy oat milk'',
                                             t_updated_at := ''2025-01-01T00:01:00.001Z''\<rparr>))]
   \<and> map operation (sync_queue (snd (deleteTask demo_env one_task_world ''t1''))) = [''delete'']
   \<and> sync_queue (snd (deleteTask demo_env one_task_world ''t9'')) = []"
proof -
  have h: "\<forall>n. db_fault demo_env n = None" by (simp add: demo_env_def)
  have f1: "find (\<lambda>t. t_id t = ''t1'' \<and> \<not> is_deleted t) (tasks one_task_world) = Some demo_task1"
    by (simp add: one_task_world_def demo_task1_def)
  have f9: "find (\<lambda>t. t_id t = ''t9'' \<and> \<not> is_deleted t) (tasks one_task_world) = None"
    by (simp add: one_task_world_def demo_task1_def)
  note inst = mutation_enqueues_one_intent [OF h, where w = one_task_world]
  from inst [where i = "''t9''"] f9
  have "deleteTask demo_env one_task_world ''t9'' = (Inr False, one_task_world\<lparr>tick := Suc (tick one_task_world)\<rparr>)"
    by blast
  then have none: "sync_queue (snd (deleteTask demo_env one_task_world ''t9'')) = []"
    by (simp add: one_task_world_def)
  show ?thesis
    using f1 f9 none
    by (simp add: task_service_defs update_where_def count_where_def example_task_defs)
qed

text \<open>
  C4 as stated fails on a delete: the record ends with \<open>is_deleted = true\<close> and a new
  \<open>updated_at\<close>, the payload of the intent is the record before that.
\<close>

theorem delete_payload_counterexample:
  "fst (deleteTask demo_env one_task_world ''t1'') = Inr True
   \<and> tasks (snd (deleteTask demo_env one_task_world ''t1'')) =
       [demo_task1\<lparr>is_deleted := True, t_updated_at := ''2025-01-01T00:01:00.001Z''\<rparr>]
   \<and> map data (sync_queue (snd (deleteTask demo_env one_task_world ''t1''))) =
       [stringify (task_json demo_task1)]
   \<and> is_deleted demo_task1 = False
   \<and> stringify (task_json demo_task1) \<noteq>
       stringify (task_json (demo_task1\<lparr>is_deleted := True,
                                          t_updated_at := ''2025-01-01T00:01:00.001Z''\<rparr>))"
  by (simp add: task_service_defs update_where_def count_where_def example_task_defs)

text \<open>
  C5, as amended. While the statement executes and the intent ids of the queue are unique:
  \<open>retryAllFailed\<close> and \<open>retryFailed(ids)\<close> set \<open>retry_count\<close> to 0 and \<open>error_message\<close>
  to null on the exhausted intents only (\<open>retry_count >= 3\<close>; for \<open>retryFailed\<close> those whose
  id is supplied) and leave every other intent as it is. \<open>retryFailed\<close> reports as
  \<open>retried\<close> the number of different supplied ids that name an exhausted intent, and as
  \<open>failed\<close> the length of the supplied list minus \<open>retried\<close>; for a list without
  repetition that is the tally of the specification: the supplied ids that were exhausted,
  and those that were not.
\<close>

theorem retry_resets_only_exhausted:
  assumes run: "db_fault e (tick w) = None" and ids: "distinct (map q_id (sync_queue w))"
  shows "retryAllFailed e w =
           (\<lparr>retried = int (length (filter (\<lambda>q. 3 \<le> retry_count q) (sync_queue w))), failed = 0\<rparr>,
            w\<lparr>tick := Suc (tick w),
              sync_queue := map (\<lambda>q. if 3 \<le> retry_count q
                                      then q\<lparr>retry_count := 0, error_message := None\<rparr> else q)
                              (sync_queue w)\<rparr>)
       \<and> sync_queue (snd (retryFailed e w sel)) =
           map (\<lambda>q. if q_id q \<in> set sel \<and> 3 \<le> retry_count q
                     then q\<lparr>retry_count := 0, error_message := None\<rparr> else q) (sync_queue w)
       \<and> retried (fst (retryFailed e w sel)) = int (length (filter (is_exhausted_id w) (remdups sel)))
       \<and> failed (fst (retryFailed e w sel)) = int (length sel) - retried (fst (retryFailed e w sel))
       \<and> (distinct sel \<longrightarrow> fst (retryFailed e w sel) = spec_tally w sel)"
proof (intro conjI)
  show "retryAllFailed e w =
           (\<lparr>retried = int (length (filter (\<lambda>q. 3 \<le> retry_count q) (sync_queue w))), failed = 0\<rparr>,
            w\<lparr>tick := Suc (tick w),
              sync_queue := map (\<lambda>q. if 3 \<le> retry_count q
                                      then q\<lparr>retry_count := 0, error_message := None\<rparr> else q)
                              (sync_queue w)\<rparr>)"
    using run
    by (simp add: retryAllFailed_def db_exec_def reset_where_def count_where_def update_where_def
        maxRetries_def)
  show q: "sync_queue (snd (retryFailed e w sel)) =
           map (\<lambda>q. if q_id q \<in> set sel \<and> 3 \<le> retry_count q
                     then q\<lparr>retry_count := 0, error_message := None\<rparr> else q) (sync_queue w)"
    using run
    by (simp add: retryFailed_def db_exec_def reset_where_def count_where_def update_where_def
        maxRetries_def map_idI)
  show r: "retried (fst (retryFailed e w sel)) = int (length (filter (is_exhausted_id w) (remdups sel)))"
  proof (cases "sel = []")
    case True
    then show ?thesis by (simp add: retryFailed_def)
  next
    case False
    have "retried (fst (retryFailed e w sel))
        = int (length (filter (\<lambda>q. q_id q \<in> set sel \<and> maxRetries \<le> retry_count q) (sync_queue w)))"
      using run False
      by (simp add: retryFailed_def db_exec_def reset_where_def count_where_def)
    also have "\<dots> = int (length (filter (is_exhausted_id w) (remdups sel)))"
      unfolding count_exhausted_rows [OF ids] is_exhausted_id_def ..
    finally show ?thesis .
  qed
  show f: "failed (fst (retryFailed e w sel)) = int (length sel) - retried (fst (retryFailed e w sel))"
    using run by (simp add: retryFailed_def db_exec_def reset_where_def)
  show "distinct sel \<longrightarrow> fst (retryFailed e w sel) = spec_tally w sel"
  proof
    assume d: "distinct sel"
    have "length sel = length (filter (is_exhausted_id w) sel)
                     + length (filter (\<lambda>i. \<not> is_exhausted_id w i) sel)"
      by (simp add: sum_length_filter_compl)
    then show "fst (retryFailed e w sel) = spec_tally w sel"
      using r f d by (intro retry_result.equality) (simp_all add: spec_tally_def distinct_remdups_id)
  qed
qed

theorem retry_resets_only_exhausted_witness:
  "db_fault demo_env (tick demo_world) = None
   \<and> fst (retryFailed demo_env (demo_world\<lparr>sync_queue := [q_fresh, q_exhausted]\<rparr>) [''q1'', ''q3''])
       = \<lparr>retried = 1, failed = 1\<rparr>
   \<and> sync_queue (snd (retryFailed demo_env (demo_world\<lparr>sync_queue := [q_fresh, q_exhausted]\<rparr>)
         [''q1'', ''q3'']))
       = [q_fresh, q_exhausted\<lparr>retry_count := 0, error_message := None\<rparr>]
   \<and> sync_queue (snd (retryAllFailed demo_env (demo_world\<lparr>sync_queue := [q_fresh, q_exhausted]\<rparr>)))
       = [q_fresh, q_exhausted\<lparr>retry_count := 0, error_message := None\<rparr>]"
proof -
  let ?w = "demo_world\<lparr>sync_queue := [q_fresh, q_exhausted]\<rparr>"
  have h1: "db_fault demo_env (tick ?w) = None" by (simp add: demo_env_def)
  have h2: "distinct (map q_id (sync_queue ?w))" by (simp add: q_fresh_def q_exhausted_def)
  have d: "distinct [''q1'', ''q3'']" by simp
  have t: "spec_tally ?w [''q1'', ''q3''] = \<lparr>retried = 1, failed = 1\<rparr>"
    by (simp add: spec_tally_def is_exhausted_id_def maxRetries_def q_fresh_def q_exhausted_def)
  note inst = retry_resets_only_exhausted [OF h1 h2, where sel = "[''q1'', ''q3'']"]
  from inst d have "fst (retryFailed demo_env ?w [''q1'', ''q3'']) = spec_tally ?w [''q1'', ''q3'']"
    by blast
  moreover from inst have "sync_queue (snd (retryFailed demo_env ?w [''q1'', ''q3''])) =
      map (\<lambda>q. if q_id q \<in> set [''q1'', ''q3''] \<and> 3 \<le> retry_count q
                then q\<lparr>retry_count := 0, error_message := None\<rparr> else q) (sync_queue ?w)"
    by blast
  moreover from inst have "sync_queue (snd (retryAllFailed demo_env ?w)) =
      sync_queue (?w\<lparr>tick := Suc (tick ?w),
              sync_queue := map (\<lambda>q. if 3 \<le> retry_count q
                                      then q\<lparr>retry_count := 0, error_message := None\<rparr> else q)
                              (sync_queue ?w)\<rparr>)"
    by simp
  ultimately show ?thesis
    using h1 t by (simp add: q_fresh_def q_exhausted_def demo_env_def)
qed

text \<open>
  C5 as stated fails for a list that repeats an id: both supplied ids name the exhausted
  intent \<open>q3\<close>, none names an intent that is not exhausted, and yet \<open>failed\<close> is 1.
\<close>

theorem retry_selected_tally_counterexample:
  "sync_queue idle_world = [q_exhausted] \<and> q_id q_exhausted = ''q3'' \<and> retry_count q_exhausted = 3
   \<and> fst (retryFailed demo_env idle_world [''q3'', ''q3'']) = \<lparr>retried = 1, failed = 1\<rparr>
   \<and> filter (\<lambda>i. \<not> is_exhausted_id idle_world i) [''q3'', ''q3''] = []
   \<and> spec_tally idle_world [''q3'', ''q3''] = \<lparr>retried = 2, failed = 0\<rparr>
   \<and> fst (retryFailed demo_env idle_world [''q3'', ''q3'']) \<noteq> spec_tally idle_world [''q3'', ''q3'']"
  by (simp add: retryFailed_def db_exec_def reset_where_def count_where_def update_where_def
      maxRetries_def spec_tally_def is_exhausted_id_def demo_env_def idle_world_def q_exhausted_def)



text \<open>
  C7. A reconciliation pass over a queue with no pending intent (the database answering)
  returns \<open>{success: true, synced_items: 0, failed_items: 0}\<close> with the message
  \<open>No items to sync\<close> and changes nothing but the statement counter; a second pass right
  after it returns the same result.
\<close>

theorem sync_nothing_pending:
  assumes "db_fault e (tick w) = None" and "db_fault e (Suc (tick w)) = None"
    and "\<forall>q\<in>set (sync_queue w). \<not> retry_count q < maxRetries"
  shows "sync e w =
           (\<lparr>success = True, synced_items = 0, failed_items = 0,
             details = Message ''No items to sync''\<rparr>, w\<lparr>tick := Suc (tick w)\<rparr>)
       \<and> sync e (snd (sync e w)) =
           (\<lparr>success = True, synced_items = 0, failed_items = 0,
             details = Message ''No items to sync''\<rparr>, w\<lparr>tick := Suc (Suc (tick w))\<rparr>)"
proof -
  have "filter (\<lambda>q. retry_count q < maxRetries) (sync_queue w) = []"
    using assms(3) by (simp add: filter_empty_conv)
  then show ?thesis
    using assms(1,2) by (simp add: sync_def db_exec_def select_pending_def)
qed

theorem sync_nothing_pending_witness:
  "db_fault demo_env (tick idle_world) = None \<and> db_fault demo_env (Suc (tick idle_world)) = None
   \<and> sync_queue idle_world = [q_exhausted] \<and> \<not> retry_count q_exhausted < maxRetries
   \<and> fst (sync demo_env idle_world) =
       \<lparr>success = True, synced_items = 0, failed_items = 0, details = Message ''No items to sync''\<rparr>
   \<and> fst (sync demo_env (snd (sync demo_env idle_world))) =
       \<lparr>success = True, synced_items = 0, failed_items = 0, details = Message ''No items to sync''\<rparr>
   \<and> sync_queue (snd (sync demo_env (snd (sync demo_env idle_world)))) = [q_exhausted]"
proof -
  have h1: "db_fault demo_env (tick idle_world) = None"
    and h2: "db_fault demo_env (Suc (tick idle_world)) = None"
    by (simp_all add: demo_env_def)
  have h3: "\<forall>q\<in>set (sync_queue idle_world). \<not> retry_count q < maxRetries"
    by (simp add: idle_world_def q_exhausted_def maxRetries_def)
  have q: "sync_queue idle_world = [q_exhausted]" by (simp add: idle_world_def)
  note passes = sync_nothing_pending [OF h1 h2 h3]
  have second: "sync demo_env (snd (sync demo_env idle_world)) =
      (\<lparr>success = True, synced_items = 0, failed_items = 0,
        details = Message ''No items to sync''\<rparr>, idle_world\<lparr>tick := Suc (Suc (tick idle_world))\<rparr>)"
    using passes by (rule conjunct2)
  have first: "fst (sync demo_env idle_world) =
      \<lparr>success = True, synced_items = 0, failed_items = 0, details = Message ''No items to sync''\<rparr>"
    using passes by simp
  show ?thesis using h1 h2 h3 first by (simp only: second) (simp add: q)
qed

text \<open>
  C8. If fetching the initial pending snapshot fails (the database statement throws), the
  whole pass aborts: the result has \<open>success = false\<close>, zero synced and zero failed items
  and the raw error message in its details, and no table, log line or request is touched; so
  a storage failure is never reported as a success with nothing processed.
\<close>

theorem sync_snapshot_fetch_fails:
  assumes "db_fault e (tick w) = Some msg"
  shows "sync e w =
           (\<lparr>success = False, synced_items = 0, failed_items = 0, details = ErrorDetails msg\<rparr>,
            w\<lparr>tick := Suc (tick w)\<rparr>)"
  using assms by (simp add: sync_def db_exec_def)

theorem sync_snapshot_fetch_fails_witness:
  "db_fault down_env (tick demo_world) = Some ''SQLITE_CANTOPEN: unable to open database file''
   \<and> sync down_env demo_world =
       (\<lparr>success = False, synced_items = 0, failed_items = 0,
         details = ErrorDetails ''SQLITE_CANTOPEN: unable to open database file''\<rparr>,
        demo_world\<lparr>tick := Suc (tick demo_world)\<rparr>)"
proof -
  have h: "db_fault down_env (tick demo_world) = Some ''SQLITE_CANTOPEN: unable to open database file''"
    by (simp add: down_env_def demo_env_def)
  show ?thesis using h sync_snapshot_fetch_fails [OF h] by simp
qed




text \<open>
  C10. An intent whose operation is \<open>fail\<close>, or whose task id contains \<open>fail\<close>, or whose
  deserialised payload has \<open>title\<close> or \<open>description\<close> equal to \<open>TEST_FAILURE\<close>, always
  fails in \<open>processSyncItem\<close>, which has then logged its line and done nothing else: no
  request is sent, no statement issued. The failure is handled as any other: with the
  database executing, the intent's \<open>retry_count\<close> is set to its value plus one, the message
  stored, and the loop goes on.
\<close>

theorem test_hooks_fail_without_remote_call:
  assumes "operation item = ''fail''
         \<or> includes_str (task_id item) ''fail''
         \<or> (\<exists>v. parse_data e (data item) = Some v
              \<and> (get_prop v ''title'' = Some (JStr ''TEST_FAILURE'')
                 \<or> get_prop v ''description'' = Some (JStr ''TEST_FAILURE'')))"
  shows "\<exists>err. processSyncItem e w item = (Some err, w\<lparr>stdout := stdout w @ [processing_line item]\<rparr>)
          \<and> requests (snd (processSyncItem e w item)) = requests w
          \<and> ((\<forall>n. db_fault e n = None) \<longrightarrow>
               (\<exists>w3. sync_loop e (item # rest) p w =
                   sync_loop e rest
                     (p\<lparr>errorCount := errorCount p + 1,
                        item_details := (item_details p)(q_id item \<mapsto> DError (task_id item) err)\<rparr>)
                     w3
                 \<and> sync_queue w3 = update_where (\<lambda>q. q_id q = q_id item)
                     (\<lambda>q. q\<lparr>retry_count := retry_count item + 1, error_message := Some err,
                            updated_at := Some (toISOString e (tick w))\<rparr>) (sync_queue w)))"
proof -
  let ?w0 = "w\<lparr>stdout := stdout w @ [processing_line item]\<rparr>"
  have "\<exists>err. processSyncItem e w item = (Some err, ?w0)"
  proof (cases "operation item = ''fail''")
    case True
    then show ?thesis by (simp add: processSyncItem_def console_log_def Let_def)
  next
    case no_force: False
    show ?thesis
    proof (cases "parse_data e (data item)")
      case None
      with no_force show ?thesis by (simp add: processSyncItem_def console_log_def Let_def)
    next
      case (Some v)
      show ?thesis
      proof (cases "includes_str (task_id item) ''fail''")
        case True
        with no_force Some show ?thesis by (simp add: processSyncItem_def console_log_def Let_def)
      next
        case False
        with assms no_force Some
        have hook: "get_prop v ''title'' = Some (JStr ''TEST_FAILURE'')
                  \<or> get_prop v ''description'' = Some (JStr ''TEST_FAILURE'')"
          by simp
        then have "v \<noteq> JNull" by auto
        with no_force Some False hook show ?thesis
          by (simp add: processSyncItem_def console_log_def Let_def)
      qed
    qed
  qed
  then obtain err where run: "processSyncItem e w item = (Some err, ?w0)" by blast
  have "(\<forall>n. db_fault e n = None) \<longrightarrow>
               (\<exists>w3. sync_loop e (item # rest) p w =
                   sync_loop e rest
                     (p\<lparr>errorCount := errorCount p + 1,
                        item_details := (item_details p)(q_id item \<mapsto> DError (task_id item) err)\<rparr>)
                     w3
                 \<and> sync_queue w3 = update_where (\<lambda>q. q_id q = q_id item)
                     (\<lambda>q. q\<lparr>retry_count := retry_count item + 1, error_message := Some err,
                            updated_at := Some (toISOString e (tick w))\<rparr>) (sync_queue w))"
  proof
    assume avail: "\<forall>n. db_fault e n = None"
    from failure_turn [OF avail run, of rest p] show "\<exists>w3. sync_loop e (item # rest) p w =
                   sync_loop e rest
                     (p\<lparr>errorCount := errorCount p + 1,
                        item_details := (item_details p)(q_id item \<mapsto> DError (task_id item) err)\<rparr>)
                     w3
                 \<and> sync_queue w3 = update_where (\<lambda>q. q_id q = q_id item)
                     (\<lambda>q. q\<lparr>retry_count := retry_count item + 1, error_message := Some err,
                            updated_at := Some (toISOString e (tick w))\<rparr>) (sync_queue w)"
      by (auto simp: now_def)
  qed
  with run show ?thesis by auto
qed

theorem test_hooks_fail_without_remote_call_witness:
  "operation q_forced = ''fail''
   \<and> processSyncItem demo_env demo_world q_forced =
       (Some ''Forced failure for testing'',
        demo_world\<lparr>stdout := [''Processing sync item: fail task t1'']\<rparr>)
   \<and> requests (snd (processSyncItem demo_env demo_world q_forced)) = []"
proof -
  have h: "operation q_forced = ''fail''
         \<or> includes_str (task_id q_forced) ''fail''
         \<or> (\<exists>v. parse_data demo_env (data q_forced) = Some v
              \<and> (get_prop v ''title'' = Some (JStr ''TEST_FAILURE'')
                 \<or> get_prop v ''description'' = Some (JStr ''TEST_FAILURE'')))"
    by (simp add: q_forced_def)
  from test_hooks_fail_without_remote_call [OF h, where w = demo_world]
  obtain err where "processSyncItem demo_env demo_world q_forced =
      (Some err, demo_world\<lparr>stdout := stdout demo_world @ [processing_line q_forced]\<rparr>)"
    by blast
  then show ?thesis
    by (simp add: processSyncItem_def q_forced_def demo_world_def console_log_def processing_line_def)
qed

end
